theory Spec2Isabelle
  imports Complex_Main "HOL-Library.Multiset" "HOL-Library.Log_Nat"
begin

section \<open>Data model\<close>

text \<open>
  The simulator is Python. Positions, velocities, lengths and counters are Python integers
  and are modelled as \<open>int\<close>; \<open>%\<close> on integers is floored, as \<open>mod\<close> on \<open>int\<close> is.
  The brake probability and the random draws are floats that are only compared with
  each other, so they are modelled as \<open>real\<close>.

  Exceptions are values: \<open>ZeroDivisionError\<close> is Python's own (integer \<open>%\<close> and
  \<open>/\<close> by zero), \<open>ValueError\<close> is what \<open>numpy.random.choice\<close> raises for a sample
  that cannot be drawn, \<open>OverflowError\<close> is Python's for an integer too large for a float
  and for \<open>int\<close> of an infinite float.
\<close>

datatype error = ZeroDivisionError | ValueError | OverflowError

text \<open>
  The values stored in the system histories are floats. They are modelled as exact reals
  together with the one undefined value that the code can produce, \<open>NaN\<close> (the mean of
  an empty sequence); the rounding of these recorded values is not modelled. Where a
  float decides how the program continues (the vehicle count of the density scan) its
  rounding is modelled, see \<open>double_round\<close>.
\<close>

datatype npfloat = NaN | Fin real

record car =
  position :: int
  velocity :: int
  v_max :: int
  acceleration :: int
  brake_prob :: real
  velocity_history :: "int list"
  position_history :: "int list"

text \<open>
  The three incident attributes of a road are created together by \<open>introduce_accident\<close>
  and are absent before (the code tests \<open>hasattr(self, 'accident_timer')\<close>), so they
  form one optional record.
\<close>

record accident =
  accident_location :: int
  accident_duration :: int
  accident_timer :: int

record road =
  length_r :: int
  n_cars :: int
  time :: int
  cars :: "car list"
  avg_velocity_history :: "npfloat list"
  density_history :: "npfloat list"
  flow_history :: "npfloat list"
  incident :: "accident option"

text \<open>
  The process-wide random generator of numpy is an explicit state of type \<open>'g\<close>. Its
  three operations used by the code are parameters of the model: \<open>np_seed s\<close> is the
  state after \<open>np.random.seed(s)\<close>, \<open>np_rand\<close> is \<open>np.random.rand()\<close>, and
  \<open>np_choice g n k\<close> is the sample returned by
  \<open>np.random.choice(range(n), size=k, replace=False)\<close> when such a sample exists.
\<close>

record 'g np_random =
  np_seed :: "int \<Rightarrow> 'g"
  np_rand :: "'g \<Rightarrow> real \<times> 'g"
  np_choice :: "'g \<Rightarrow> int \<Rightarrow> int \<Rightarrow> int list \<times> 'g"

section \<open>The vehicle (agents.py)\<close>

definition Car_init :: "int \<Rightarrow> int \<Rightarrow> int \<Rightarrow> real \<Rightarrow> car" where
  "Car_init pos vmax acc bp =
     \<lparr>position = pos, velocity = 0, v_max = vmax, acceleration = acc, brake_prob = bp,
      velocity_history = [], position_history = []\<rparr>"

text \<open>The statements of \<open>Car.update\<close>, one definition per commented step of the source.\<close>

definition accelerate :: "car \<Rightarrow> car" where
  "accelerate c = c\<lparr>velocity := min (velocity c + acceleration c) (v_max c)\<rparr>"

definition avoid_collision :: "int \<Rightarrow> car \<Rightarrow> car" where
  "avoid_collision distance_to_next c =
     (let safe_distance = velocity c
      in if distance_to_next \<le> safe_distance
         then c\<lparr>velocity := max (distance_to_next - 1) 0\<rparr>
         else c)"

definition random_brake :: "real \<Rightarrow> car \<Rightarrow> car" where
  "random_brake u c =
     (if u < brake_prob c then c\<lparr>velocity := max (velocity c - 1) 0\<rparr> else c)"

definition move :: "int \<Rightarrow> car \<Rightarrow> error + car" where
  "move road_length c =
     (if road_length = 0 then Inl ZeroDivisionError
      else Inr (c\<lparr>position := (position c + velocity c) mod road_length\<rparr>))"

definition record_state :: "car \<Rightarrow> car" where
  "record_state c =
     c\<lparr>velocity_history := velocity_history c @ [velocity c],
       position_history := position_history c @ [position c]\<rparr>"

text \<open>
  \<open>update\<close> draws once from the generator, whatever the branch taken, and returns the
  mutated car with the generator's next state.
\<close>

definition update :: "'g np_random \<Rightarrow> car \<Rightarrow> int \<Rightarrow> int \<Rightarrow> 'g \<Rightarrow> error + (car \<times> 'g)" where
  "update rng c distance_to_next road_length g =
     (let c1 = accelerate c;
          c2 = avoid_collision distance_to_next c1;
          (u, g') = np_rand rng g;
          c3 = random_brake u c2
      in case move road_length c3 of
           Inl e \<Rightarrow> Inl e
         | Inr c4 \<Rightarrow> Inr (record_state c4, g'))"

text \<open>The velocity that the three velocity phases leave, as the specification words it.\<close>

definition phase_velocity :: "car \<Rightarrow> int \<Rightarrow> real \<Rightarrow> int" where
  "phase_velocity c d u =
     (let v1 = min (velocity c + acceleration c) (v_max c);
          v2 = (if d \<le> v1 then max (d - 1) 0 else v1)
      in if u < brake_prob c then max (v2 - 1) 0 else v2)"

text \<open>The car that a successful update leaves, given the draw.\<close>

definition updated :: "car \<Rightarrow> int \<Rightarrow> int \<Rightarrow> real \<Rightarrow> car" where
  "updated c d road_length u =
     c\<lparr>velocity := phase_velocity c d u,
       position := (position c + phase_velocity c d u) mod road_length,
       velocity_history := velocity_history c @ [phase_velocity c d u],
       position_history := position_history c @
          [(position c + phase_velocity c d u) mod road_length]\<rparr>"

section \<open>The road (environment.py)\<close>

subsection \<open>numpy: sampling and means\<close>

text \<open>
  \<open>np.random.choice(range(n), size=k, replace=False)\<close> raises \<open>ValueError\<close> when
  \<open>k\<close> is negative, when the population \<open>range(n)\<close> is empty and \<open>k\<close> is not zero, and
  when \<open>k\<close> exceeds the population size; \<open>range(n)\<close> has \<open>max n 0\<close> elements.
\<close>

definition np_random_choice :: "'g np_random \<Rightarrow> 'g \<Rightarrow> int \<Rightarrow> int \<Rightarrow> error + (int list \<times> 'g)" where
  "np_random_choice rng g n k =
     (if k < 0 \<or> max n 0 < k then Inl ValueError else Inr (np_choice rng g n k))"

text \<open>\<open>np.mean\<close> of an empty sequence is NaN (with a warning, not an exception).\<close>

definition mean_real :: "real list \<Rightarrow> npfloat" where
  "mean_real xs = (if xs = [] then NaN else Fin (sum_list xs / real (length xs)))"

definition np_mean_int :: "int list \<Rightarrow> npfloat" where
  "np_mean_int xs = mean_real (map real_of_int xs)"

fun fmul :: "npfloat \<Rightarrow> npfloat \<Rightarrow> npfloat" where
  "fmul (Fin a) (Fin b) = Fin (a * b)"
| "fmul _ _ = NaN"

subsection \<open>Construction\<close>

text \<open>\<open>Road.__init__\<close>: every car is built with the default acceleration 1.\<close>

definition Road_init ::
  "'g np_random \<Rightarrow> int \<Rightarrow> int \<Rightarrow> int \<Rightarrow> real \<Rightarrow> 'g \<Rightarrow> error + (road \<times> 'g)" where
  "Road_init rng len n vmax bp g =
     (case np_random_choice rng g len n of
        Inl e \<Rightarrow> Inl e
      | Inr (sample, g') \<Rightarrow>
          Inr (\<lparr>length_r = len, n_cars = n, time = 0,
                 cars = map (\<lambda>pos. Car_init pos vmax 1 bp) (sort sample),
                 avg_velocity_history = [], density_history = [], flow_history = [],
                 incident = None\<rparr>, g'))"

subsection \<open>Incidents\<close>

definition introduce_accident :: "road \<Rightarrow> int \<Rightarrow> int \<Rightarrow> road" where
  "introduce_accident r location duration =
     r\<lparr>incident := Some \<lparr>accident_location = location, accident_duration = duration,
                           accident_timer = 0\<rparr>\<rparr>"

definition distance_to_accident :: "int \<Rightarrow> int \<Rightarrow> car \<Rightarrow> int" where
  "distance_to_accident len loc c =
     (let d = \<bar>position c - loc\<bar> in min d (len - d))"

definition force_stop :: "int \<Rightarrow> int \<Rightarrow> car \<Rightarrow> car" where
  "force_stop len loc c =
     (if distance_to_accident len loc c < 20 then c\<lparr>velocity := 0\<rparr> else c)"

definition apply_accident_effects :: "road \<Rightarrow> road" where
  "apply_accident_effects r =
     (case incident r of
        None \<Rightarrow> r
      | Some a \<Rightarrow>
          if accident_timer a < accident_duration a
          then r\<lparr>cars := map (force_stop (length_r r) (accident_location a)) (cars r),
                 incident := Some (a\<lparr>accident_timer := accident_timer a + 1\<rparr>)\<rparr>
          else r)"

subsection \<open>One time step\<close>

text \<open>
  The gap loop reads \<open>cars[next_idx]\<close> and \<open>cars[i]\<close> of the sorted list; both indices
  are in range whenever the loop body runs. \<open>%\<close> by a zero length raises.
\<close>

definition distances :: "car list \<Rightarrow> int \<Rightarrow> error + int list" where
  "distances cs len =
     (if cs \<noteq> [] \<and> len = 0 then Inl ZeroDivisionError
      else Inr (map (\<lambda>i. let next_idx = (i + 1) mod length cs
                          in (position (cs ! next_idx) - position (cs ! i)) mod len)
                    [0..<length cs]))"

text \<open>The loop \<open>for car, dist in zip(self.cars, distances): car.update(dist, self.length)\<close>.\<close>

fun update_all ::
  "'g np_random \<Rightarrow> (car \<times> int) list \<Rightarrow> int \<Rightarrow> 'g \<Rightarrow> error + (car list \<times> 'g)" where
  "update_all rng [] len g = Inr ([], g)"
| "update_all rng ((c, d) # rest) len g =
     (case update rng c d len g of
        Inl e \<Rightarrow> Inl e
      | Inr (c', g') \<Rightarrow>
          (case update_all rng rest len g' of
             Inl e \<Rightarrow> Inl e
           | Inr (cs', g'') \<Rightarrow> Inr (c' # cs', g'')))"

text \<open>
  \<open>_record_metrics\<close>: the mean is taken first, then \<open>self.n_cars / self.length\<close>
  raises for a zero length.
\<close>

definition record_metrics :: "road \<Rightarrow> error + road" where
  "record_metrics r =
     (let velocities = map velocity (cars r);
          avg_v = np_mean_int velocities
      in if length_r r = 0 then Inl ZeroDivisionError
         else let density = Fin (real_of_int (n_cars r) / real_of_int (length_r r));
                  flow = fmul density avg_v
              in Inr (r\<lparr>avg_velocity_history := avg_velocity_history r @ [avg_v],
                        density_history := density_history r @ [density],
                        flow_history := flow_history r @ [flow]\<rparr>))"

definition step :: "'g np_random \<Rightarrow> road \<Rightarrow> 'g \<Rightarrow> error + (road \<times> 'g)" where
  "step rng r g =
     (let r1 = apply_accident_effects r;
          cs = sort_key position (cars r1)
      in case distances cs (length_r r1) of
           Inl e \<Rightarrow> Inl e
         | Inr ds \<Rightarrow>
             (case update_all rng (zip cs ds) (length_r r1) g of
                Inl e \<Rightarrow> Inl e
              | Inr (cs', g') \<Rightarrow>
                  (case record_metrics (r1\<lparr>cars := cs', time := time r1 + 1\<rparr>) of
                     Inl e \<Rightarrow> Inl e
                   | Inr r2 \<Rightarrow> Inr (r2, g'))))"

text \<open>\<open>for _ in range(n): road.step()\<close>; the first exception ends the run.\<close>

fun run_steps :: "'g np_random \<Rightarrow> nat \<Rightarrow> road \<Rightarrow> 'g \<Rightarrow> error + (road \<times> 'g)" where
  "run_steps rng 0 r g = Inr (r, g)"
| "run_steps rng (Suc n) r g =
     (case step rng r g of
        Inl e \<Rightarrow> Inl e
      | Inr (r', g') \<Rightarrow> run_steps rng n r' g')"

text \<open>The successive draws of \<open>n\<close> calls of \<open>np.random.rand()\<close>, and the state they leave.\<close>

fun draws :: "'g np_random \<Rightarrow> 'g \<Rightarrow> nat \<Rightarrow> real list" where
  "draws rng g 0 = []"
| "draws rng g (Suc n) = fst (np_rand rng g) # draws rng (snd (np_rand rng g)) n"

fun after_draws :: "'g np_random \<Rightarrow> 'g \<Rightarrow> nat \<Rightarrow> 'g" where
  "after_draws rng g 0 = g"
| "after_draws rng g (Suc n) = after_draws rng (snd (np_rand rng g)) n"

subsection \<open>A scripted generator\<close>

text \<open>
  For evaluating the model on concrete inputs: the state is the list of draws still to be
  returned (0 once it is exhausted), seeding installs a fixed script derived from the
  seed, and the sample of \<open>k\<close> cells out of \<open>range(n)\<close> is the first \<open>k\<close> cells.
\<close>

definition script_rng :: "real list np_random" where
  "script_rng =
     \<lparr>np_seed = (\<lambda>s. map (\<lambda>k. real_of_int ((s + int k) mod 10) / 10) [0..<8]),
      np_rand = (\<lambda>g. case g of [] \<Rightarrow> (0, []) | u # us \<Rightarrow> (u, us)),
      np_choice = (\<lambda>g n k. (map int [0..<nat k], g))\<rparr>"

subsection \<open>The step, as the specification words it\<close>

text \<open>
  The gap of the car at cyclic index \<open>i\<close> of the sorted list, and the cars that result
  when every car is updated with its gap in the sorted list and with its own draw.
\<close>

definition gap :: "car list \<Rightarrow> int \<Rightarrow> nat \<Rightarrow> int" where
  "gap cs len i = (position (cs ! ((i + 1) mod length cs)) - position (cs ! i)) mod len"

definition moved :: "'g np_random \<Rightarrow> car list \<Rightarrow> int \<Rightarrow> 'g \<Rightarrow> car list" where
  "moved rng cs len g =
     map (\<lambda>i. updated (cs ! i) (gap cs len i) len (draws rng g (length cs) ! i))
       [0..<length cs]"

section \<open>The experiment driver (simulation.py)\<close>

text \<open>
  \<open>np.random.seed(s)\<close> raises \<open>ValueError\<close> unless \<open>0 \<le> s < 2\<^sup>3\<^sup>2\<close>.
\<close>

definition np_random_seed :: "'g np_random \<Rightarrow> int \<Rightarrow> error + 'g" where
  "np_random_seed rng s = (if s < 0 \<or> 2 ^ 32 \<le> s then Inl ValueError else Inr (np_seed rng s))"

text \<open>
  \<open>run_simulation\<close>: \<open>seed=None\<close> leaves the process-wide generator as it is; a seed
  resets it. \<open>range(n_steps)\<close> is empty for a negative \<open>n_steps\<close>.
\<close>

definition run_simulation ::
  "'g np_random \<Rightarrow> int \<Rightarrow> int \<Rightarrow> int \<Rightarrow> int \<Rightarrow> real \<Rightarrow> int option \<Rightarrow> 'g
     \<Rightarrow> error + (road \<times> 'g)" where
  "run_simulation rng n_steps road_length n vmax bp seed g =
     (case (case seed of None \<Rightarrow> Inr g | Some s \<Rightarrow> np_random_seed rng s) of
        Inl e \<Rightarrow> Inl e
      | Inr g0 \<Rightarrow>
          (case Road_init rng road_length n vmax bp g0 of
             Inl e \<Rightarrow> Inl e
           | Inr (r, g1) \<Rightarrow> run_steps rng (nat n_steps) r g1))"

subsection \<open>The density scan\<close>

text \<open>
  \<open>int(x)\<close> on a float truncates toward zero; \<open>xs[b:]\<close> counts a negative \<open>b\<close> from the
  end of the list and never fails.
\<close>

definition py_int :: "real \<Rightarrow> int" where
  "py_int x = (if 0 \<le> x then \<lfloor>x\<rfloor> else \<lceil>x\<rceil>)"

text \<open>
  Python floats are IEEE 754 doubles. A finite double is a real \<open>m * 2\<^sup>e\<close> with
  \<open>\<bar>m\<bar> < 2\<^sup>5\<^sup>3\<close> and \<open>e \<ge> -1074\<close>, below \<open>2\<^sup>1\<^sup>0\<^sup>2\<^sup>4\<close> in absolute value. \<open>double_round x\<close> is
  the double nearest to \<open>x\<close>, ties going to the even mantissa, and \<open>None\<close> when that
  rounding overflows to an infinity: \<open>double_exponent x\<close> is \<open>\<lfloor>log\<^sub>2 \<bar>x\<bar>\<rfloor>\<close>, the unit in the
  last place is \<open>2\<close> to that exponent less 52, and never below \<open>2\<^sup>-\<^sup>1\<^sup>0\<^sup>7\<^sup>4\<close> (subnormal
  numbers). It is the rounding of the conversion of an \<open>int\<close> to a float and of the
  product of two floats.
\<close>

definition two_power :: "int \<Rightarrow> real" where
  "two_power e = (if 0 \<le> e then 2 ^ nat e else 1 / 2 ^ nat (- e))"

definition double_exponent :: "real \<Rightarrow> int" where
  "double_exponent x =
     (if 1 \<le> \<bar>x\<bar> then bitlen \<lfloor>\<bar>x\<bar>\<rfloor> - 1 else - bitlen (\<lceil>1 / \<bar>x\<bar>\<rceil> - 1))"

definition round_half_even :: "real \<Rightarrow> int" where
  "round_half_even q =
     (let f = \<lfloor>q\<rfloor>; r = q - real_of_int f
      in if r < 1/2 then f else if 1/2 < r then f + 1 else if even f then f else f + 1)"

definition double_round :: "real \<Rightarrow> real option" where
  "double_round x =
     (if x = 0 then Some 0
      else let e = max (double_exponent x - 52) (- 1074);
               y = real_of_int (round_half_even (x / two_power e)) * two_power e
           in if 2 ^ 1024 \<le> \<bar>y\<bar> then None else Some y)"

text \<open>
  \<open>n_cars = int(density * road_length)\<close>: the integer \<open>road_length\<close> is converted to a
  float, the product is the double product, and \<open>int\<close> truncates it. The density is the
  real value of a finite float.
\<close>

definition scan_n_cars :: "real \<Rightarrow> int \<Rightarrow> error + int" where
  "scan_n_cars density road_length =
     (case double_round (real_of_int road_length) of
        None \<Rightarrow> Inl OverflowError
      | Some len \<Rightarrow>
          (case double_round (density * len) of
             None \<Rightarrow> Inl OverflowError
           | Some x \<Rightarrow> Inr (py_int x)))"

definition py_slice_from :: "int \<Rightarrow> 'a list \<Rightarrow> 'a list" where
  "py_slice_from b xs =
     (if 0 \<le> b then drop (nat b) xs else drop (nat (int (length xs) + b)) xs)"

text \<open>
  \<open>np.mean\<close> and \<open>np.std\<close> (the population standard deviation) of a list of floats:
  NaN for an empty list and for a list that holds a NaN.
\<close>

fun fin_values :: "npfloat list \<Rightarrow> real list option" where
  "fin_values [] = Some []"
| "fin_values (NaN # xs) = None"
| "fin_values (Fin x # xs) = map_option ((#) x) (fin_values xs)"

definition np_mean :: "npfloat list \<Rightarrow> npfloat" where
  "np_mean xs = (case fin_values xs of None \<Rightarrow> NaN | Some ys \<Rightarrow> mean_real ys)"

definition np_std :: "npfloat list \<Rightarrow> npfloat" where
  "np_std xs =
     (case fin_values xs of
        None \<Rightarrow> NaN
      | Some ys \<Rightarrow>
          if ys = [] then NaN
          else let m = sum_list ys / real (length ys)
               in Fin (sqrt (sum_list (map (\<lambda>y. (y - m)\<^sup>2) ys) / real (length ys))))"

record aggregate =
  avg_velocity :: npfloat
  std_velocity :: npfloat
  avg_flow :: npfloat
  std_flow :: npfloat

text \<open>
  The inner loop \<open>for run in range(n_runs)\<close> of \<open>experiment_density_scan\<close>, with its two
  accumulators; \<open>run_simulation\<close> is called with the defaults \<open>v_max=5\<close> and
  \<open>brake_prob=0.3\<close>.
\<close>

fun scan_runs ::
  "'g np_random \<Rightarrow> int \<Rightarrow> int \<Rightarrow> int \<Rightarrow> int \<Rightarrow> nat list \<Rightarrow> 'g \<Rightarrow> npfloat list \<Rightarrow> npfloat list
     \<Rightarrow> error + (npfloat list \<times> npfloat list \<times> 'g)" where
  "scan_runs rng n_steps road_length n burn_in [] g avg_velocities avg_flows =
     Inr (avg_velocities, avg_flows, g)"
| "scan_runs rng n_steps road_length n burn_in (run # runs) g avg_velocities avg_flows =
     (case run_simulation rng n_steps road_length n 5 (3/10) (Some (int run)) g of
        Inl e \<Rightarrow> Inl e
      | Inr (r, g') \<Rightarrow>
          (let steady_state_velocities = py_slice_from burn_in (avg_velocity_history r);
               steady_state_flows = py_slice_from burn_in (flow_history r)
           in scan_runs rng n_steps road_length n burn_in runs g'
                (avg_velocities @ [np_mean steady_state_velocities])
                (avg_flows @ [np_mean steady_state_flows])))"

text \<open>The outer loop \<open>for density in densities\<close>; \<open>results\<close> is the dictionary.\<close>

fun scan_densities ::
  "'g np_random \<Rightarrow> real list \<Rightarrow> int \<Rightarrow> int \<Rightarrow> int \<Rightarrow> int \<Rightarrow> (real \<rightharpoonup> aggregate) \<Rightarrow> 'g
     \<Rightarrow> error + ((real \<rightharpoonup> aggregate) \<times> 'g)" where
  "scan_densities rng [] n_steps road_length n_runs burn_in results g = Inr (results, g)"
| "scan_densities rng (density # densities) n_steps road_length n_runs burn_in results g =
     (case scan_n_cars density road_length of
        Inl e \<Rightarrow> Inl e
      | Inr n \<Rightarrow>
          (case scan_runs rng n_steps road_length n burn_in [0..<nat n_runs] g [] [] of
             Inl e \<Rightarrow> Inl e
           | Inr (avg_velocities, avg_flows, g') \<Rightarrow>
               scan_densities rng densities n_steps road_length n_runs burn_in
                 (results(density \<mapsto>
                    \<lparr>avg_velocity = np_mean avg_velocities,
                     std_velocity = np_std avg_velocities,
                     avg_flow = np_mean avg_flows, std_flow = np_std avg_flows\<rparr>)) g'))"

definition experiment_density_scan ::
  "'g np_random \<Rightarrow> real list \<Rightarrow> int \<Rightarrow> int \<Rightarrow> int \<Rightarrow> int \<Rightarrow> 'g
     \<Rightarrow> error + ((real \<rightharpoonup> aggregate) \<times> 'g)" where
  "experiment_density_scan rng densities n_steps road_length n_runs burn_in g =
     scan_densities rng densities n_steps road_length n_runs burn_in Map.empty g"

text \<open>
  The aggregate of one density as the specification words it: from the roads of the
  replicates, the mean and standard deviation of the per-replicate means of the
  histories after the burn-in.
\<close>

definition aggregate_of :: "int \<Rightarrow> road list \<Rightarrow> aggregate" where
  "aggregate_of burn_in roads =
     (let vs = map (\<lambda>r. np_mean (py_slice_from burn_in (avg_velocity_history r))) roads;
          fs = map (\<lambda>r. np_mean (py_slice_from burn_in (flow_history r))) roads
      in \<lparr>avg_velocity = np_mean vs, std_velocity = np_std vs,
          avg_flow = np_mean fs, std_flow = np_std fs\<rparr>)"

fun nonneg_or_nan :: "npfloat \<Rightarrow> bool" where
  "nonneg_or_nan NaN = True"
| "nonneg_or_nan (Fin x) = (0 \<le> x)"

text \<open>
  The invariant of the roads that the scan builds: a positive length, a vehicle count
  that is not negative, no negative velocity, acceleration or \<open>v_max\<close>, and no negative
  value in the velocity and flow histories.
\<close>

definition road_ok :: "road \<Rightarrow> bool" where
  "road_ok r \<longleftrightarrow>
     0 < length_r r \<and> 0 \<le> n_cars r \<and>
     (\<forall>c\<in>set (cars r). 0 \<le> velocity c \<and> 0 \<le> acceleration c \<and> 0 \<le> v_max c) \<and>
     (\<forall>x\<in>set (avg_velocity_history r). nonneg_or_nan x) \<and>
     (\<forall>x\<in>set (flow_history r). nonneg_or_nan x)"

section \<open>Properties of the vehicle update\<close>

lemma update_eq:
  assumes "road_length \<noteq> 0" and "np_rand rng g = (u, g')"
  shows "update rng c d road_length g =
         Inr (c\<lparr>velocity := phase_velocity c d u,
                position := (position c + phase_velocity c d u) mod road_length,
                velocity_history := velocity_history c @ [phase_velocity c d u],
                position_history := position_history c @
                   [(position c + phase_velocity c d u) mod road_length]\<rparr>, g')"
  using assms
  by (simp add: update_def accelerate_def avoid_collision_def random_brake_def move_def
      record_state_def phase_velocity_def Let_def)

lemma update_updated:
  assumes "len \<noteq> 0"
  shows "update rng c d len g = Inr (updated c d len (fst (np_rand rng g)), snd (np_rand rng g))"
  using update_eq [OF assms prod.collapse [symmetric], where c = c and d = d and rng = rng and g = g]
  by (simp add: updated_def)

lemma phase_velocity_bounds:
  assumes "0 \<le> velocity c" and "velocity c \<le> v_max c" and "0 \<le> acceleration c"
  shows "0 \<le> phase_velocity c d u \<and> phase_velocity c d u \<le> v_max c"
  using assms by (auto simp: phase_velocity_def Let_def)

lemma phase_velocity_below_gap:
  assumes "0 \<le> velocity c + acceleration c" and "0 \<le> v_max c" and "0 < d"
  shows "0 \<le> phase_velocity c d u \<and> phase_velocity c d u < d"
  using assms by (auto simp: phase_velocity_def Let_def)

lemma phase_velocity_nonneg:
  assumes "0 \<le> velocity c + acceleration c" and "0 \<le> v_max c"
  shows "0 \<le> phase_velocity c d u"
  using assms by (auto simp: phase_velocity_def Let_def)

lemma phase_velocity_gap_0:
  assumes "0 \<le> velocity c + acceleration c" and "0 \<le> v_max c"
  shows "phase_velocity c 0 u = 0"
  using assms by (simp add: phase_velocity_def Let_def)

text \<open>
  C1. For a non-negative gap and a positive road length, one call of the vehicle update
  applies acceleration, collision avoidance, stochastic braking (with the draw \<open>u\<close> taken
  from the generator), the move modulo the road length and the recording of the
  resulting velocity and position, in this order; \<open>v_max\<close>, \<open>acceleration\<close> and
  \<open>brake_prob\<close> are left as they were.
\<close>

theorem update_phases:
  assumes "0 \<le> distance_to_next" and "0 < road_length" and "np_rand rng g = (u, g')"
  shows "update rng c distance_to_next road_length g =
         (let v1 = min (velocity c + acceleration c) (v_max c);
              v2 = (if distance_to_next \<le> v1 then max (distance_to_next - 1) 0 else v1);
              v3 = (if u < brake_prob c then max (v2 - 1) 0 else v2);
              p = (position c + v3) mod road_length
          in Inr (\<lparr>position = p, velocity = v3, v_max = v_max c,
                    acceleration = acceleration c, brake_prob = brake_prob c,
                    velocity_history = velocity_history c @ [v3],
                    position_history = position_history c @ [p]\<rparr>, g'))"
  using assms
  by (simp add: update_def accelerate_def avoid_collision_def random_brake_def move_def
      record_state_def Let_def)

theorem update_phases_witness:
  "(0::int) \<le> 4 \<and> (0::int) < 10 \<and> np_rand script_rng [9/10] = (9/10, []) \<and>
   update script_rng (Car_init 3 5 1 (3/10)) 4 10 [9/10] =
     Inr (\<lparr>position = 4, velocity = 1, v_max = 5, acceleration = 1, brake_prob = 3/10,
            velocity_history = [1], position_history = [4]\<rparr>, [])"
proof -
  have h: "np_rand script_rng [9/10] = (9/10, [])"
    by (simp add: script_rng_def)
  show ?thesis
    using update_phases [OF _ _ h, of 4 10 "Car_init 3 5 1 (3/10)"]
    by (simp add: Car_init_def Let_def h)
qed

text \<open>
  C3. A vehicle of the data model (acceleration not negative) whose velocity lies in
  \<open>[0, v_max]\<close> and whose position lies in \<open>[0, roadLength)\<close> is again such a vehicle
  after an update with any non-negative gap and any draw, and the update returns; the
  same holds after the incident override, whether or not it forces the velocity to 0.
\<close>

theorem update_preserves_bounds:
  assumes "0 \<le> velocity c" and "velocity c \<le> v_max c"
    and "0 \<le> position c" and "position c < road_length"
    and "0 \<le> acceleration c" and "0 \<le> d"
  shows "(\<exists>c' g'. update rng c d road_length g = Inr (c', g') \<and>
           0 \<le> velocity c' \<and> velocity c' \<le> v_max c' \<and>
           0 \<le> position c' \<and> position c' < road_length) \<and>
         0 \<le> velocity (c\<lparr>velocity := 0\<rparr>) \<and>
         velocity (c\<lparr>velocity := 0\<rparr>) \<le> v_max (c\<lparr>velocity := 0\<rparr>) \<and>
         0 \<le> position (c\<lparr>velocity := 0\<rparr>) \<and> position (c\<lparr>velocity := 0\<rparr>) < road_length \<and>
         force_stop len loc c \<in> {c, c\<lparr>velocity := 0\<rparr>}"
proof -
  have L: "road_length \<noteq> 0" "0 < road_length" using assms by auto
  have v: "0 \<le> phase_velocity c d (fst (np_rand rng g)) \<and>
           phase_velocity c d (fst (np_rand rng g)) \<le> v_max c"
    using assms by (intro phase_velocity_bounds)
  have "\<exists>c' g'. update rng c d road_length g = Inr (c', g') \<and>
           0 \<le> velocity c' \<and> velocity c' \<le> v_max c' \<and>
           0 \<le> position c' \<and> position c' < road_length"
    using v L by (simp add: update_updated updated_def)
  moreover have "force_stop len loc c \<in> {c, c\<lparr>velocity := 0\<rparr>}"
    by (simp add: force_stop_def)
  ultimately show ?thesis
    using assms by simp
qed

theorem update_preserves_bounds_witness:
  "(\<exists>c' g'. update script_rng ((Car_init 7 5 1 (3/10))\<lparr>velocity := 4\<rparr>) 2 10 [9/10] = Inr (c', g') \<and>
      0 \<le> velocity c' \<and> velocity c' \<le> v_max c' \<and> 0 \<le> position c' \<and> position c' < 10) \<and>
   force_stop 10 5 ((Car_init 7 5 1 (3/10))\<lparr>velocity := 4\<rparr>) = (Car_init 7 5 1 (3/10))\<lparr>velocity := 0\<rparr>"
  using update_preserves_bounds [where c = "(Car_init 7 5 1 (3/10))\<lparr>velocity := 4\<rparr>"
      and road_length = 10 and d = 2 and len = 10 and loc = 5 and rng = script_rng
      and g = "[9/10]"]
  by (simp add: Car_init_def force_stop_def distance_to_accident_def)

section \<open>Properties of the step\<close>

subsection \<open>The loops of the step\<close>

lemma update_all_eq:
  assumes "len \<noteq> 0"
  shows "update_all rng cds len g =
         Inr (map2 (\<lambda>(c, d) u. updated c d len u) cds (draws rng g (length cds)),
              after_draws rng g (length cds))"
  using assms
proof (induction cds arbitrary: g)
  case Nil
  then show ?case by simp
next
  case (Cons cd cds)
  obtain c d where cd: "cd = (c, d)" by (cases cd)
  show ?case
    by (simp add: cd update_updated [OF Cons.prems] Cons.IH [OF Cons.prems])
qed

lemma length_draws: "length (draws rng g n) = n"
  by (induction n arbitrary: g) auto

lemma draws_nth:
  "i < n \<Longrightarrow> draws rng g n ! i = fst (np_rand rng (after_draws rng g i))"
proof (induction n arbitrary: g i)
  case 0
  then show ?case by simp
next
  case (Suc n)
  then show ?case by (cases i) simp_all
qed

lemma after_draws_Suc:
  "after_draws rng g (Suc i) = snd (np_rand rng (after_draws rng g i))"
  by (induction i arbitrary: g) simp_all

lemma distances_eq:
  assumes "len \<noteq> 0"
  shows "distances cs len = Inr (map (gap cs len) [0..<length cs])"
  using assms by (simp add: distances_def gap_def Let_def)

lemma sum_list_real_of_int:
  "sum_list (map real_of_int xs) = real_of_int (sum_list xs)"
  by (induction xs) simp_all

lemma record_metrics_eq:
  assumes "length_r r \<noteq> 0"
  shows "record_metrics r =
     Inr (r\<lparr>avg_velocity_history := avg_velocity_history r @ [np_mean_int (map velocity (cars r))],
            density_history := density_history r @
               [Fin (real_of_int (n_cars r) / real_of_int (length_r r))],
            flow_history := flow_history r @
               [fmul (Fin (real_of_int (n_cars r) / real_of_int (length_r r)))
                     (np_mean_int (map velocity (cars r)))]\<rparr>)"
  using assms by (simp add: record_metrics_def Let_def)

lemma length_r_apply_accident_effects [simp]:
  "length_r (apply_accident_effects r) = length_r r"
  by (simp add: apply_accident_effects_def split: option.splits)

lemma n_cars_apply_accident_effects [simp]:
  "n_cars (apply_accident_effects r) = n_cars r"
  by (simp add: apply_accident_effects_def split: option.splits)

lemma position_force_stop [simp]: "position (force_stop len loc c) = position c"
  by (simp add: force_stop_def)

lemma positions_apply_accident_effects:
  "map position (cars (apply_accident_effects r)) = map position (cars r)"
  by (simp add: apply_accident_effects_def comp_def split: option.splits)

lemma in_cars_apply_accident_effects:
  assumes "c \<in> set (cars (apply_accident_effects r))"
  shows "\<exists>c0\<in>set (cars r). position c = position c0 \<and> acceleration c = acceleration c0 \<and>
           v_max c = v_max c0 \<and> brake_prob c = brake_prob c0 \<and>
           (velocity c = velocity c0 \<or> velocity c = 0)"
  using assms
  by (auto simp: apply_accident_effects_def force_stop_def split: option.splits if_splits)

lemma cars_apply_accident_effects_Nil:
  "cars r = [] \<Longrightarrow> cars (apply_accident_effects r) = []"
  by (simp add: apply_accident_effects_def split: option.splits)

lemma step_eq:
  fixes rng :: "'g np_random" and g :: 'g
  assumes "length_r r \<noteq> 0"
  defines "r1 \<equiv> apply_accident_effects r"
  defines "cs \<equiv> sort_key position (cars r1)"
  defines "cs' \<equiv> moved rng cs (length_r r) g"
  shows "step rng r g =
     Inr (r1\<lparr>cars := cs', time := time r + 1,
            avg_velocity_history := avg_velocity_history r @ [np_mean_int (map velocity cs')],
            density_history := density_history r @
               [Fin (real_of_int (n_cars r) / real_of_int (length_r r))],
            flow_history := flow_history r @
               [fmul (Fin (real_of_int (n_cars r) / real_of_int (length_r r)))
                     (np_mean_int (map velocity cs'))]\<rparr>, after_draws rng g (length (cars r)))"
proof -
  have ds: "distances cs (length_r r1) = Inr (map (gap cs (length_r r)) [0..<length cs])"
    using assms(1) by (simp add: distances_eq r1_def)
  have len: "length cs = length (cars r)"
    by (simp add: cs_def r1_def apply_accident_effects_def split: option.splits)
  have m: "map2 (\<lambda>(c, d) u. updated c d (length_r r) u)
             (zip cs (map (gap cs (length_r r)) [0..<length cs])) (draws rng g (length cs)) = cs'"
    by (rule nth_equalityI) (simp_all add: cs'_def moved_def length_draws)
  have ua: "update_all rng (zip cs (map (gap cs (length_r r)) [0..<length cs])) (length_r r1) g
            = Inr (cs', after_draws rng g (length (cars r)))"
    using assms(1) m by (simp add: update_all_eq r1_def len)
  have same: "time r1 = time r" "avg_velocity_history r1 = avg_velocity_history r"
    "density_history r1 = density_history r" "flow_history r1 = flow_history r"
    "n_cars r1 = n_cars r" "length_r r1 = length_r r"
    by (simp_all add: r1_def apply_accident_effects_def split: option.splits)
  have "step rng r g =
     (case distances cs (length_r r1) of
           Inl e \<Rightarrow> Inl e
         | Inr ds \<Rightarrow>
             (case update_all rng (zip cs ds) (length_r r1) g of
                Inl e \<Rightarrow> Inl e
              | Inr (cs', g') \<Rightarrow>
                  (case record_metrics (r1\<lparr>cars := cs', time := time r1 + 1\<rparr>) of
                     Inl e \<Rightarrow> Inl e
                   | Inr r2 \<Rightarrow> Inr (r2, g'))))"
    unfolding step_def Let_def r1_def cs_def ..
  also have "\<dots> = (case record_metrics (r1\<lparr>cars := cs', time := time r1 + 1\<rparr>) of
                     Inl e \<Rightarrow> Inl e
                   | Inr r2 \<Rightarrow> Inr (r2, after_draws rng g (length (cars r))))"
    by (simp only: ds ua sum.case prod.case)
  finally show ?thesis
    using assms(1) by (simp add: record_metrics_eq same)
qed

lemma moved_Nil [simp]: "moved rng [] len g = []"
  by (simp add: moved_def)

lemma length_moved [simp]: "length (moved rng cs len g) = length cs"
  by (simp add: moved_def)

lemma moved_nth:
  assumes "i < length cs" and "len \<noteq> 0"
  shows "update rng (cs ! i) (gap cs len i) len (after_draws rng g i) =
           Inr (moved rng cs len g ! i, after_draws rng g (Suc i))"
  using assms
  by (simp add: moved_def update_updated draws_nth after_draws_Suc del: after_draws.simps)

lemma position_moved:
  assumes "i < length cs"
  shows "position (moved rng cs len g ! i) =
           (position (cs ! i) + velocity (moved rng cs len g ! i)) mod len"
    and "velocity (moved rng cs len g ! i) =
           phase_velocity (cs ! i) (gap cs len i) (draws rng g (length cs) ! i)"
  using assms by (simp_all add: moved_def updated_def)

lemma step_total:
  assumes "length_r r \<noteq> 0"
  shows "\<exists>r' g'. step rng r g = Inr (r', g') \<and> length_r r' = length_r r \<and>
           incident r' = incident (apply_accident_effects r) \<and>
           cars r' = moved rng (sort_key position (cars (apply_accident_effects r))) (length_r r) g"
  by (simp add: step_eq [OF assms])

text \<open>
  C2. On a road of non-zero length \<open>step\<close> returns, and: the cars (after the incident
  override, which moves no car) are sorted by ascending position; the car at cyclic
  index \<open>i\<close> of the sorted list is updated with the gap
  \<open>(position[next] - position[i]) mod length\<close> computed from the positions before any
  car moves, drawing in this order from the generator; time is incremented by 1; one
  value is appended to each system history, the average velocity being the mean of the
  car velocities after the update (NaN without cars), the density \<open>n_cars / length\<close>
  and the flow their product.
\<close>

theorem step_structure:
  fixes rng :: "'g np_random" and g :: 'g
  assumes "length_r r \<noteq> 0"
  shows "\<exists>r' g'. step rng r g = Inr (r', g') \<and>
    (let cs = sort_key position (cars (apply_accident_effects r));
         n = length cs;
         avg_v = (if n = 0 then NaN
                  else Fin (real_of_int (sum_list (map velocity (cars r'))) / real n));
         density = Fin (real_of_int (n_cars r) / real_of_int (length_r r))
     in sorted (map position cs) \<and> mset cs = mset (cars (apply_accident_effects r)) \<and>
        map position (cars (apply_accident_effects r)) = map position (cars r) \<and>
        length (cars r') = n \<and>
        (\<forall>i<n. update rng (cs ! i)
                  ((position (cs ! ((i + 1) mod n)) - position (cs ! i)) mod length_r r)
                  (length_r r) (after_draws rng g i) =
                Inr (cars r' ! i, after_draws rng g (Suc i))) \<and>
        g' = after_draws rng g n \<and>
        time r' = time r + 1 \<and>
        avg_velocity_history r' = avg_velocity_history r @ [avg_v] \<and>
        density_history r' = density_history r @ [density] \<and>
        flow_history r' = flow_history r @ [fmul density avg_v])"
proof -
  define cs where "cs = sort_key position (cars (apply_accident_effects r))"
  define cs' where "cs' = moved rng cs (length_r r) g"
  define density where "density = Fin (real_of_int (n_cars r) / real_of_int (length_r r))"
  define avg_v where "avg_v = (if length cs = 0 then NaN
              else Fin (real_of_int (sum_list (map velocity cs')) / real (length cs)))"
  define r' where "r' = (apply_accident_effects r)\<lparr>cars := cs', time := time r + 1,
            avg_velocity_history := avg_velocity_history r @ [avg_v],
            density_history := density_history r @ [density],
            flow_history := flow_history r @ [fmul density avg_v]\<rparr>"
  have len: "length cs = length (cars r)"
    by (simp add: cs_def apply_accident_effects_def split: option.splits)
  have len': "length cs' = length cs"
    by (simp add: cs'_def)
  have avg: "np_mean_int (map velocity cs') = avg_v"
  proof -
    have "cs' = [] \<longleftrightarrow> length cs = 0" using len' by (metis length_0_conv)
    then show ?thesis
      using sum_list_real_of_int [of "map velocity cs'"]
      by (simp add: np_mean_int_def mean_real_def len' avg_v_def)
  qed
  have st: "step rng r g = Inr (r', after_draws rng g (length cs))"
    unfolding step_eq [OF assms] r'_def cs'_def cs_def [symmetric] avg [unfolded cs'_def]
      density_def len ..
  have c1: "sorted (map position cs)"
    by (simp add: cs_def)
  have c2: "mset cs = mset (cars (apply_accident_effects r))"
    by (simp add: cs_def)
  have c3: "map position (cars (apply_accident_effects r)) = map position (cars r)"
    by (rule positions_apply_accident_effects)
  have c4: "length (cars r') = length cs"
    by (simp add: r'_def len')
  have c5: "\<forall>i<length cs. update rng (cs ! i)
                  ((position (cs ! ((i + 1) mod length cs)) - position (cs ! i)) mod length_r r)
                  (length_r r) (after_draws rng g i) =
                Inr (cars r' ! i, after_draws rng g (Suc i))"
  proof (intro allI impI)
    fix i assume "i < length cs"
    from moved_nth [OF this assms, of rng g]
    show "update rng (cs ! i)
                  ((position (cs ! ((i + 1) mod length cs)) - position (cs ! i)) mod length_r r)
                  (length_r r) (after_draws rng g i) =
                Inr (cars r' ! i, after_draws rng g (Suc i))"
      by (simp add: cs'_def gap_def r'_def)
  qed
  have c6: "time r' = time r + 1"
    "avg_velocity_history r' = avg_velocity_history r @
        [if length cs = 0 then NaN
         else Fin (real_of_int (sum_list (map velocity (cars r'))) / real (length cs))]"
    "density_history r' = density_history r @ [density]"
    "flow_history r' = flow_history r @
        [fmul density (if length cs = 0 then NaN
         else Fin (real_of_int (sum_list (map velocity (cars r'))) / real (length cs)))]"
    by (simp_all add: r'_def avg_v_def)
  show ?thesis
    unfolding Let_def cs_def [symmetric] density_def [symmetric]
    by (intro exI [of _ r'] exI [of _ "after_draws rng g (length cs)"] conjI st c1 c2 c3 c4
        c5 c6 refl)
qed

theorem step_structure_witness:
  "\<exists>r' g'. step script_rng
       \<lparr>length_r = 10, n_cars = 2, time = 0,
        cars = [Car_init 7 5 1 (3/10), Car_init 2 5 1 (3/10)],
        avg_velocity_history = [], density_history = [], flow_history = [],
        incident = None\<rparr> [1/10, 9/10] = Inr (r', g') \<and>
      length (cars r') = 2 \<and> g' = [] \<and> time r' = 1 \<and> density_history r' = [Fin (1/5)]"
  using step_structure [where rng = script_rng and g = "[1/10, 9/10]" and
      r = "\<lparr>length_r = 10, n_cars = 2, time = 0,
        cars = [Car_init 7 5 1 (3/10), Car_init 2 5 1 (3/10)],
        avg_velocity_history = [], density_history = [], flow_history = [],
        incident = None\<rparr>"]
  by (auto simp: Let_def apply_accident_effects_def Car_init_def script_rng_def eval_nat_numeral)

subsection \<open>A road without vehicles\<close>

text \<open>
  C8, as the code has it. Stepping a road that holds no vehicle (and has a non-zero
  length) raises nothing: time advances by one, the average velocity recorded is NaN,
  the density recorded is 0 and the flow recorded is NaN; an active incident's timer
  advances as in any other step.
\<close>

theorem step_empty_fleet:
  assumes "cars r = []" and "n_cars r = 0" and "length_r r \<noteq> 0"
  shows "step rng r g =
         Inr (r\<lparr>time := time r + 1,
                avg_velocity_history := avg_velocity_history r @ [NaN],
                density_history := density_history r @ [Fin 0],
                flow_history := flow_history r @ [NaN],
                incident := incident (apply_accident_effects r)\<rparr>, g)"
proof -
  have c: "cars (apply_accident_effects r) = []"
    using assms(1) by (rule cars_apply_accident_effects_Nil)
  have e: "apply_accident_effects r = r\<lparr>incident := incident (apply_accident_effects r)\<rparr>"
    using assms(1) by (simp add: apply_accident_effects_def split: option.splits)
  have "step rng r g =
         Inr ((apply_accident_effects r)\<lparr>cars := [], time := time r + 1,
                avg_velocity_history := avg_velocity_history r @ [NaN],
                density_history := density_history r @ [Fin 0],
                flow_history := flow_history r @ [NaN]\<rparr>, g)"
    using assms by (simp add: step_eq c np_mean_int_def mean_real_def)
  also have "(apply_accident_effects r)\<lparr>cars := [], time := time r + 1,
                avg_velocity_history := avg_velocity_history r @ [NaN],
                density_history := density_history r @ [Fin 0],
                flow_history := flow_history r @ [NaN]\<rparr> =
             r\<lparr>time := time r + 1,
                avg_velocity_history := avg_velocity_history r @ [NaN],
                density_history := density_history r @ [Fin 0],
                flow_history := flow_history r @ [NaN],
                incident := incident (apply_accident_effects r)\<rparr>"
    using assms(1) by (subst e) simp
  finally show ?thesis .
qed

theorem step_empty_fleet_witness:
  "step script_rng \<lparr>length_r = 10, n_cars = 0, time = 3, cars = [],
       avg_velocity_history = [], density_history = [], flow_history = [],
       incident = Some \<lparr>accident_location = 5, accident_duration = 2, accident_timer = 0\<rparr>\<rparr> [1/2] =
   Inr (\<lparr>length_r = 10, n_cars = 0, time = 4, cars = [],
       avg_velocity_history = [NaN], density_history = [Fin 0], flow_history = [NaN],
       incident = Some \<lparr>accident_location = 5, accident_duration = 2, accident_timer = 1\<rparr>\<rparr>, [1/2])"
  using step_empty_fleet [where rng = script_rng and g = "[1/2]" and r = "\<lparr>length_r = 10, n_cars = 0, time = 3, cars = [],
       avg_velocity_history = [], density_history = [], flow_history = [],
       incident = Some \<lparr>accident_location = 5, accident_duration = 2, accident_timer = 0\<rparr>\<rparr>"]
  by (simp add: apply_accident_effects_def)

text \<open>
  C8 as stated fails: the road built for 10 cells and no vehicle is stepped without any
  error, and NaN is appended to the average-velocity history.
\<close>

theorem step_empty_fleet_counterexample:
  "Road_init script_rng 10 0 5 (3/10) [] =
     Inr (\<lparr>length_r = 10, n_cars = 0, time = 0, cars = [],
            avg_velocity_history = [], density_history = [], flow_history = [],
            incident = None\<rparr>, []) \<and>
   step script_rng \<lparr>length_r = 10, n_cars = 0, time = 0, cars = [],
            avg_velocity_history = [], density_history = [], flow_history = [],
            incident = None\<rparr> [] =
     Inr (\<lparr>length_r = 10, n_cars = 0, time = 1, cars = [],
            avg_velocity_history = [NaN], density_history = [Fin 0], flow_history = [NaN],
            incident = None\<rparr>, [])"
  by (simp add: Road_init_def np_random_choice_def script_rng_def step_def
      apply_accident_effects_def distances_def record_metrics_def np_mean_int_def
      mean_real_def Let_def)

subsection \<open>A road with one vehicle\<close>

lemma single_car_step:
  assumes "cars r = [c]" and "velocity c = 0" and "acceleration c = 1" and "v_max c = 5"
    and "length_r r \<noteq> 0"
  shows "\<exists>r' g' c'. step rng r g = Inr (r', g') \<and> cars r' = [c'] \<and> velocity c' = 0 \<and>
           acceleration c' = 1 \<and> v_max c' = 5 \<and> length_r r' = length_r r \<and>
           position c' = position c mod length_r r \<and>
           velocity_history c' = velocity_history c @ [0]"
proof -
  have fs: "force_stop len loc c = c" for len loc
    using assms(2) by (simp add: force_stop_def)
  have c1: "cars (apply_accident_effects r) = [c]"
    using assms(1) by (simp add: apply_accident_effects_def fs split: option.splits)
  have g0: "gap [c] (length_r r) 0 = 0"
    by (simp add: gap_def)
  have pv: "phase_velocity c 0 u = 0" for u
    using assms by (simp add: phase_velocity_gap_0)
  have m: "moved rng [c] (length_r r) g =
           [updated c 0 (length_r r) (draws rng g (Suc 0) ! 0)]"
    by (simp add: moved_def g0)
  show ?thesis
    using assms
    by (simp add: step_eq c1 m updated_def pv)
qed

text \<open>
  C5 fails on the code. With a single vehicle the cyclic successor of the vehicle is the
  vehicle itself, so its gap is computed as 0 and collision avoidance clamps the
  velocity to 0 in every step: started at rest with \<open>v_max = 5\<close>, \<open>acceleration = 1\<close>
  and \<open>brake_prob = 0\<close> on a road of length at least 10, the vehicle has velocity 0
  after any number of steps, and every velocity recorded is 0.
\<close>

theorem single_vehicle_stays_at_rest:
  assumes "cars r = [c]" and "velocity c = 0" and "acceleration c = 1" and "v_max c = 5"
    and "brake_prob c = 0" and "10 \<le> length_r r"
  shows "\<exists>r' g' c'. run_steps rng k r g = Inr (r', g') \<and> cars r' = [c'] \<and>
           velocity c' = 0 \<and> velocity_history c' = velocity_history c @ replicate k 0"
proof -
  have "\<exists>r' g' c'. run_steps rng k r g = Inr (r', g') \<and> cars r' = [c'] \<and>
           velocity c' = 0 \<and> velocity_history c' = velocity_history c @ replicate k 0"
    if "cars r = [c]" "velocity c = 0" "acceleration c = 1" "v_max c = 5" "length_r r \<noteq> 0"
    for r c
    using that
  proof (induction k arbitrary: r c g)
    case 0
    then show ?case by simp
  next
    case (Suc k)
    from single_car_step [OF Suc.prems, of rng g]
    obtain r1 g1 c1 where s: "step rng r g = Inr (r1, g1)" and c1: "cars r1 = [c1]"
      "velocity c1 = 0" "acceleration c1 = 1" "v_max c1 = 5" "length_r r1 \<noteq> 0"
      and h: "velocity_history c1 = velocity_history c @ [0]"
      using Suc.prems(5) by auto
    from Suc.IH [OF c1, of g1] h s show ?case
      by (auto simp: replicate_app_Cons_same)
  qed
  with assms show ?thesis by force
qed

theorem single_vehicle_stays_at_rest_witness:
  "\<exists>r' g' c'. run_steps script_rng 5
       \<lparr>length_r = 10, n_cars = 1, time = 0, cars = [Car_init 0 5 1 0],
        avg_velocity_history = [], density_history = [], flow_history = [],
        incident = None\<rparr> [] = Inr (r', g') \<and> cars r' = [c'] \<and>
      velocity c' = 0 \<and> velocity_history c' = [0, 0, 0, 0, 0]"
  using single_vehicle_stays_at_rest [where rng = script_rng and k = 5 and g = "[]"
      and c = "Car_init 0 5 1 0"
      and r = "\<lparr>length_r = 10, n_cars = 1, time = 0, cars = [Car_init 0 5 1 0],
        avg_velocity_history = [], density_history = [], flow_history = [],
        incident = None\<rparr>"]
  by (simp add: Car_init_def eval_nat_numeral)

subsection \<open>Incidents\<close>

lemma run_steps_incident:
  assumes "length_r r \<noteq> 0"
    and "incident r = Some \<lparr>accident_location = loc, accident_duration = dur, accident_timer = t\<rparr>"
  shows "\<exists>rk gk. run_steps rng k r g = Inr (rk, gk) \<and> length_r rk = length_r r \<and>
           incident rk = Some \<lparr>accident_location = loc, accident_duration = dur,
                                accident_timer = (if t < dur then min (t + int k) dur else t)\<rparr>"
  using assms
proof (induction k arbitrary: r g t)
  case 0
  then show ?case by auto
next
  case (Suc k)
  obtain r1 g1 where s: "step rng r g = Inr (r1, g1)" and l: "length_r r1 = length_r r"
    and i: "incident r1 = incident (apply_accident_effects r)"
    using step_total [OF Suc.prems(1), of rng g] by blast
  have i1: "incident r1 = Some \<lparr>accident_location = loc, accident_duration = dur,
                                accident_timer = (if t < dur then t + 1 else t)\<rparr>"
    using Suc.prems(2) by (simp add: i apply_accident_effects_def)
  have l1: "length_r r1 \<noteq> 0" using l Suc.prems(1) by simp
  from Suc.IH [OF l1 i1, of g1] s l show ?case
    by (auto split: if_splits)
qed

text \<open>
  C4. \<open>introduce_accident\<close> sets location and duration and resets the timer to 0,
  whatever incident the road had. After \<open>k\<close> further steps the timer is
  \<open>min k (max duration 0)\<close>, and the next step forces to velocity 0, before sorting and
  updating, exactly the cars at circular distance below 20 from the location if
  \<open>k < duration\<close>, and forces nothing otherwise.
\<close>

theorem incident_forcing:
  assumes "length_r r \<noteq> 0"
  shows "introduce_accident r loc dur =
           r\<lparr>incident := Some \<lparr>accident_location = loc, accident_duration = dur,
                                 accident_timer = 0\<rparr>\<rparr> \<and>
         (\<exists>rk gk. run_steps rng k (introduce_accident r loc dur) g = Inr (rk, gk) \<and>
            incident rk = Some \<lparr>accident_location = loc, accident_duration = dur,
                                 accident_timer = min (int k) (max dur 0)\<rparr> \<and>
            (let forced =
                   (if int k < dur
                    then map (\<lambda>c. if min \<bar>position c - loc\<bar> (length_r r - \<bar>position c - loc\<bar>) < 20
                                   then c\<lparr>velocity := 0\<rparr> else c) (cars rk)
                    else cars rk)
             in \<exists>r' g'. step rng rk gk = Inr (r', g') \<and>
                  cars r' = moved rng (sort_key position forced) (length_r r) gk \<and>
                  incident r' = Some \<lparr>accident_location = loc, accident_duration = dur,
                                       accident_timer = min (int (Suc k)) (max dur 0)\<rparr>))"
proof -
  let ?r0 = "introduce_accident r loc dur"
  have l0: "length_r ?r0 \<noteq> 0" and i0: "incident ?r0 =
      Some \<lparr>accident_location = loc, accident_duration = dur, accident_timer = 0\<rparr>"
    using assms by (simp_all add: introduce_accident_def)
  from run_steps_incident [OF l0 i0, of rng k g]
  obtain rk gk where rk: "run_steps rng k ?r0 g = Inr (rk, gk)"
    and lk: "length_r rk = length_r r"
    and ik: "incident rk = Some \<lparr>accident_location = loc, accident_duration = dur,
                                accident_timer = min (int k) (max dur 0)\<rparr>"
    by (auto simp: introduce_accident_def split: if_splits)
  have lk0: "length_r rk \<noteq> 0" using lk assms by simp
  have act: "min (int k) (max dur 0) < dur \<longleftrightarrow> int k < dur" by auto
  have cf: "cars (apply_accident_effects rk) =
        (if int k < dur
         then map (\<lambda>c. if min \<bar>position c - loc\<bar> (length_r r - \<bar>position c - loc\<bar>) < 20
                        then c\<lparr>velocity := 0\<rparr> else c) (cars rk)
         else cars rk)"
    using ik lk
    by (simp add: apply_accident_effects_def act force_stop_def distance_to_accident_def
        Let_def)
  have inc: "incident (apply_accident_effects rk) =
        Some \<lparr>accident_location = loc, accident_duration = dur,
              accident_timer = min (int (Suc k)) (max dur 0)\<rparr>"
    using ik by (auto simp: apply_accident_effects_def act)
  from step_total [OF lk0, of rng gk]
  obtain r' g' where "step rng rk gk = Inr (r', g')"
    "incident r' = incident (apply_accident_effects rk)"
    "cars r' = moved rng (sort_key position (cars (apply_accident_effects rk))) (length_r rk) gk"
    by blast
  then show ?thesis
    unfolding Let_def
    using rk ik cf inc lk by (auto simp: introduce_accident_def)
qed

theorem incident_forcing_witness:
  "\<exists>rk gk. run_steps script_rng 1
       (introduce_accident
          \<lparr>length_r = 100, n_cars = 2, time = 0,
           cars = [(Car_init 10 5 1 (3/10))\<lparr>velocity := 3\<rparr>, (Car_init 50 5 1 (3/10))\<lparr>velocity := 3\<rparr>],
           avg_velocity_history = [], density_history = [], flow_history = [],
           incident = Some \<lparr>accident_location = 70, accident_duration = 9, accident_timer = 4\<rparr>\<rparr>
          12 2) [1/2, 1/2, 1/2, 1/2] = Inr (rk, gk) \<and>
      incident rk = Some \<lparr>accident_location = 12, accident_duration = 2, accident_timer = 1\<rparr>"
  using incident_forcing [where rng = script_rng and g = "[1/2, 1/2, 1/2, 1/2]" and k = 1
      and loc = 12 and dur = 2 and
      r = "\<lparr>length_r = 100, n_cars = 2, time = 0,
           cars = [(Car_init 10 5 1 (3/10))\<lparr>velocity := 3\<rparr>, (Car_init 50 5 1 (3/10))\<lparr>velocity := 3\<rparr>],
           avg_velocity_history = [], density_history = [], flow_history = [],
           incident = Some \<lparr>accident_location = 70, accident_duration = 9, accident_timer = 4\<rparr>\<rparr>"]
  by auto

subsection \<open>Positions stay distinct\<close>

lemma sorted_distinct_nth_less:
  fixes ps :: "int list"
  assumes "sorted ps" and "distinct ps" and "i < j" and "j < length ps"
  shows "ps ! i < ps ! j"
proof -
  have "ps ! i \<le> ps ! j"
    using assms by (simp add: sorted_nth_mono)
  moreover have "ps ! i \<noteq> ps ! j"
    using assms by (simp add: nth_eq_iff_index_eq)
  ultimately show ?thesis by simp
qed

lemma mod_shift_negative:
  fixes k :: int
  assumes "- len < k" and "k < 0"
  shows "k mod len = k + len"
proof -
  have "(k + len) mod len = k + len"
    using assms by (intro mod_pos_pos_trivial) auto
  then show ?thesis by simp
qed

lemma ring_gap:
  fixes ps :: "int list"
  assumes "sorted ps" and "distinct ps" and "\<forall>p\<in>set ps. 0 \<le> p \<and> p < len"
    and "2 \<le> length ps" and "i < length ps"
  defines "d \<equiv> (ps ! ((i + 1) mod length ps) - ps ! i) mod len"
  shows "0 < d" and "ps ! i + d \<le> ps ! 0 + len"
    and "Suc i < length ps \<Longrightarrow> ps ! i + d = ps ! Suc i"
proof -
  have r: "0 \<le> ps ! k \<and> ps ! k < len" if "k < length ps" for k
    using assms(3) that by simp
  have n0: "0 < length ps" using assms(5) by auto
  have r0: "0 \<le> ps ! 0" using r [OF n0] by simp
  have "0 < d \<and> ps ! i + d \<le> ps ! 0 + len \<and> (Suc i < length ps \<longrightarrow> ps ! i + d = ps ! Suc i)"
  proof (cases "Suc i < length ps")
    case True
    then have m: "(i + 1) mod length ps = Suc i" "Suc i mod length ps = Suc i" by simp_all
    have lt: "ps ! i < ps ! Suc i"
      using sorted_distinct_nth_less [OF assms(1,2) _ True] by simp
    have "(ps ! Suc i - ps ! i) mod len = ps ! Suc i - ps ! i"
      using lt r [OF True] r [OF assms(5)] by (intro mod_pos_pos_trivial) auto
    then have d: "d = ps ! Suc i - ps ! i" by (simp add: d_def m)
    show ?thesis
      using d lt r [OF True] r0 True by auto
  next
    case False
    then have i: "Suc i = length ps" using assms(5) by simp
    then have m: "(i + 1) mod length ps = 0" "Suc i mod length ps = 0" by simp_all
    have i0: "0 < i" using i assms(4) by simp
    have lt: "ps ! 0 < ps ! i"
      using sorted_distinct_nth_less [OF assms(1,2) i0 assms(5)] .
    have "(ps ! 0 - ps ! i) mod len = ps ! 0 - ps ! i + len"
      using lt r [OF assms(5)] r0 by (intro mod_shift_negative) auto
    then have d: "d = ps ! 0 - ps ! i + len" by (simp add: d_def m)
    show ?thesis
      using d lt r [OF assms(5)] r0 False by auto
  qed
  then show "0 < d" and "ps ! i + d \<le> ps ! 0 + len"
    and "Suc i < length ps \<Longrightarrow> ps ! i + d = ps ! Suc i"
    by simp_all
qed

lemma mod_neq_of_close:
  fixes a b :: int
  assumes "a < b" and "b < a + len"
  shows "a mod len \<noteq> b mod len"
proof
  assume "a mod len = b mod len"
  then have "len dvd (b - a)"
    by (metis mod_eq_dvd_iff)
  moreover have "0 < b - a" "b - a < len" using assms by auto
  ultimately show False
    using zdvd_not_zless by blast
qed

lemma ring_positions_distinct:
  fixes ps vs :: "int list"
  assumes "sorted ps" and "distinct ps" and "\<forall>p\<in>set ps. 0 \<le> p \<and> p < len"
    and "2 \<le> length ps"
    and "\<forall>i<length ps. 0 \<le> vs ! i \<and>
            vs ! i < (ps ! ((i + 1) mod length ps) - ps ! i) mod len"
  shows "distinct (map (\<lambda>i. (ps ! i + vs ! i) mod len) [0..<length ps])"
proof -
  have key: "(ps ! i + vs ! i) mod len \<noteq> (ps ! j + vs ! j) mod len"
    if "i < j" "j < length ps" for i j
  proof -
    have i: "i < length ps" "Suc i < length ps" using that by auto
    have "ps ! i + vs ! i < ps ! Suc i"
      using ring_gap(3) [OF assms(1-4) i(1) i(2)] assms(5) i(1) by auto
    moreover have "ps ! Suc i \<le> ps ! j"
      using assms(1) that by (simp add: sorted_nth_mono)
    moreover have "0 \<le> vs ! j" "0 \<le> vs ! i" using assms(5) that i by auto
    ultimately have lt: "ps ! i + vs ! i < ps ! j + vs ! j" by linarith
    have "ps ! j + vs ! j < ps ! 0 + len"
      using ring_gap(2) [OF assms(1-4) that(2)] assms(5) that(2) by force
    moreover have "ps ! 0 \<le> ps ! i"
      using assms(1) i(1) by (simp add: sorted_nth_mono)
    ultimately have "ps ! j + vs ! j < ps ! i + vs ! i + len"
      using \<open>0 \<le> vs ! i\<close> by linarith
    with lt show ?thesis by (rule mod_neq_of_close)
  qed
  show ?thesis
  proof (subst distinct_conv_nth, intro allI impI)
    fix i j
    assume "i < length (map (\<lambda>i. (ps ! i + vs ! i) mod len) [0..<length ps])"
      and "j < length (map (\<lambda>i. (ps ! i + vs ! i) mod len) [0..<length ps])"
      and "i \<noteq> j"
    then have ij: "i < length ps" "j < length ps" "i \<noteq> j" by simp_all
    then consider "i < j" | "j < i" by linarith
    then show "map (\<lambda>i. (ps ! i + vs ! i) mod len) [0..<length ps] ! i \<noteq>
               map (\<lambda>i. (ps ! i + vs ! i) mod len) [0..<length ps] ! j"
    proof cases
      case 1
      then show ?thesis using key [of i j] ij by simp
    next
      case 2
      then show ?thesis using key [of j i] ij by simp
    qed
  qed
qed

text \<open>
  C6. On a road of the data model (positions in \<open>[0, length)\<close>, velocities in
  \<open>[0, v_max]\<close>, accelerations not negative) with at least two cars at pairwise
  distinct positions, one step, with or without an incident and for any draws, returns
  and leaves the positions pairwise distinct; each car advances by its new velocity,
  which is not negative and strictly less than its gap before the step.
\<close>

theorem step_keeps_positions_distinct:
  fixes rng :: "'g np_random" and g :: 'g
  assumes "2 \<le> length (cars r)"
    and "distinct (map position (cars r))"
    and "\<forall>c\<in>set (cars r). 0 \<le> position c \<and> position c < length_r r \<and>
            0 \<le> velocity c \<and> velocity c \<le> v_max c \<and> 0 \<le> acceleration c"
  shows "\<exists>r' g'. step rng r g = Inr (r', g') \<and> distinct (map position (cars r')) \<and>
           (let cs = sort_key position (cars (apply_accident_effects r))
            in length (cars r') = length cs \<and>
               (\<forall>i<length cs.
                   0 \<le> velocity (cars r' ! i) \<and>
                   velocity (cars r' ! i) <
                     (position (cs ! ((i + 1) mod length cs)) - position (cs ! i)) mod length_r r \<and>
                   position (cars r' ! i) =
                     (position (cs ! i) + velocity (cars r' ! i)) mod length_r r))"
proof -
  define r1 where "r1 = apply_accident_effects r"
  define cs where "cs = sort_key position (cars r1)"
  define len where "len = length_r r"
  define cs' where "cs' = moved rng cs len g"
  define ps where "ps = map position cs"
  define vs where "vs = map velocity cs'"
  have n: "length cs = length (cars r)"
    by (simp add: cs_def r1_def apply_accident_effects_def split: option.splits)
  have n': "length cs' = length cs" "length ps = length cs" "length vs = length cs"
    by (simp_all add: cs'_def ps_def vs_def)
  have pos1: "map position (cars r1) = map position (cars r)"
    unfolding r1_def by (rule positions_apply_accident_effects)
  have carp: "0 \<le> position c \<and> position c < len \<and> 0 \<le> velocity c + acceleration c \<and>
              0 \<le> v_max c" if "c \<in> set cs" for c
  proof -
    from that have "c \<in> set (cars (apply_accident_effects r))"
      by (simp add: cs_def r1_def)
    from in_cars_apply_accident_effects [OF this] assms(3) show ?thesis
      unfolding len_def by fastforce
  qed
  obtain c0 where "c0 \<in> set cs"
    using n assms(1) by (cases cs) auto
  from carp [OF this] have len0: "len \<noteq> 0" by auto
  have sorted_ps: "sorted ps"
    by (simp add: ps_def cs_def)
  have "distinct (map position (cars r1))"
    using assms(2) pos1 by simp
  then have "distinct (cars r1)" "inj_on position (set (cars r1))"
    by (simp_all add: distinct_map)
  then have distinct_ps: "distinct ps"
    by (simp add: ps_def cs_def distinct_map)
  have range_ps: "\<forall>p\<in>set ps. 0 \<le> p \<and> p < len"
    using carp by (auto simp: ps_def)
  have two: "2 \<le> length ps"
    using assms(1) n n' by simp
  have gap_ps: "gap cs len i = (ps ! ((i + 1) mod length ps) - ps ! i) mod len"
    if "i < length cs" for i
  proof -
    have "0 < length cs" using that by auto
    then have "(i + 1) mod length cs < length cs" by (rule mod_less_divisor)
    then show ?thesis using that by (simp add: gap_def ps_def)
  qed
  have gap_pos: "0 < gap cs len i" if "i < length cs" for i
    using ring_gap(1) [OF sorted_ps distinct_ps range_ps two, of i] that n'
    by (simp add: gap_ps)
  have vel: "0 \<le> vs ! i \<and> vs ! i < gap cs len i" if "i < length cs" for i
  proof -
    have "cs ! i \<in> set cs" using that by simp
    from carp [OF this] gap_pos [OF that]
    have "0 \<le> phase_velocity (cs ! i) (gap cs len i) (draws rng g (length cs) ! i) \<and>
          phase_velocity (cs ! i) (gap cs len i) (draws rng g (length cs) ! i) < gap cs len i"
      by (intro phase_velocity_below_gap) auto
    then show ?thesis
      using that by (simp add: vs_def cs'_def position_moved(2))
  qed
  have "distinct (map (\<lambda>i. (ps ! i + vs ! i) mod len) [0..<length ps])"
    using vel n' by (intro ring_positions_distinct sorted_ps distinct_ps range_ps two)
      (simp add: gap_ps)
  moreover have "map position cs' = map (\<lambda>i. (ps ! i + vs ! i) mod len) [0..<length ps]"
    by (rule nth_equalityI)
      (simp_all add: n' cs'_def position_moved(1) vs_def ps_def)
  ultimately have d: "distinct (map position cs')" by simp
  from step_total [of r rng g] len0
  obtain r' g' where st: "step rng r g = Inr (r', g')" and c': "cars r' = cs'"
    by (auto simp: len_def cs'_def cs_def r1_def)
  have props: "\<forall>i<length cs.
                   0 \<le> velocity (cs' ! i) \<and>
                   velocity (cs' ! i) <
                     (position (cs ! ((i + 1) mod length cs)) - position (cs ! i)) mod len \<and>
                   position (cs' ! i) = (position (cs ! i) + velocity (cs' ! i)) mod len"
  proof (intro allI impI)
    fix i assume i: "i < length cs"
    from vel [OF i] i have "0 \<le> velocity (cs' ! i) \<and> velocity (cs' ! i) < gap cs len i"
      by (simp add: vs_def n')
    moreover have "position (cs' ! i) = (position (cs ! i) + velocity (cs' ! i)) mod len"
      using i by (simp add: cs'_def position_moved(1))
    ultimately show "0 \<le> velocity (cs' ! i) \<and>
                   velocity (cs' ! i) <
                     (position (cs ! ((i + 1) mod length cs)) - position (cs ! i)) mod len \<and>
                   position (cs' ! i) = (position (cs ! i) + velocity (cs' ! i)) mod len"
      by (simp add: gap_def)
  qed
  show ?thesis
    unfolding Let_def cs_def [symmetric, unfolded r1_def] len_def [symmetric]
    using st d props n' by (auto simp: c')
qed

theorem step_keeps_positions_distinct_witness:
  "\<exists>r' g'. step script_rng
       \<lparr>length_r = 10, n_cars = 2, time = 0,
        cars = [(Car_init 7 5 1 (3/10))\<lparr>velocity := 4\<rparr>, (Car_init 8 5 1 (3/10))\<lparr>velocity := 2\<rparr>],
        avg_velocity_history = [], density_history = [], flow_history = [],
        incident = None\<rparr> [1/10, 9/10] = Inr (r', g') \<and>
      distinct (map position (cars r'))"
  using step_keeps_positions_distinct [where rng = script_rng and g = "[1/10, 9/10]" and
      r = "\<lparr>length_r = 10, n_cars = 2, time = 0,
        cars = [(Car_init 7 5 1 (3/10))\<lparr>velocity := 4\<rparr>, (Car_init 8 5 1 (3/10))\<lparr>velocity := 2\<rparr>],
        avg_velocity_history = [], density_history = [], flow_history = [],
        incident = None\<rparr>"]
  by (auto simp: Car_init_def)

section \<open>Properties of the construction\<close>

text \<open>
  C7, as the code has it. Construction fails, with the sampling's \<open>ValueError\<close>, exactly
  when the vehicle count is negative or exceeds the number of road cells
  \<open>max length 0\<close>; in every other case it succeeds with time 0 and empty histories,
  whatever \<open>v_max\<close> and the brake probability are.
\<close>

theorem road_init_fails_iff:
  "(n < 0 \<or> max len 0 < n \<longrightarrow> Road_init rng len n vmax bp g = Inl ValueError) \<and>
   (0 \<le> n \<and> n \<le> max len 0 \<longrightarrow>
      Road_init rng len n vmax bp g =
        Inr (\<lparr>length_r = len, n_cars = n, time = 0,
               cars = map (\<lambda>pos. Car_init pos vmax 1 bp) (sort (fst (np_choice rng g len n))),
               avg_velocity_history = [], density_history = [], flow_history = [],
               incident = None\<rparr>, snd (np_choice rng g len n)))"
  by (auto simp: Road_init_def np_random_choice_def split: prod.splits)

theorem road_init_fails_iff_witness:
  "Road_init script_rng 10 11 5 (3/10) [] = Inl ValueError \<and>
   Road_init script_rng 10 2 5 (3/10) [] =
     Inr (\<lparr>length_r = 10, n_cars = 2, time = 0,
            cars = [Car_init 0 5 1 (3/10), Car_init 1 5 1 (3/10)],
            avg_velocity_history = [], density_history = [], flow_history = [],
            incident = None\<rparr>, [])"
  using road_init_fails_iff [of 11 10 script_rng 5 "3/10" "[]"]
    road_init_fails_iff [of 2 10 script_rng 5 "3/10" "[]"]
  by (simp add: script_rng_def upt_conv_Cons)

text \<open>
  C7 as stated fails: a negative \<open>v_max\<close>, a brake probability above 1 and a road of
  length 0 (with no vehicle) are all accepted.
\<close>

theorem road_init_counterexample:
  "Road_init script_rng 10 2 (- 1) (3/10) [] =
     Inr (\<lparr>length_r = 10, n_cars = 2, time = 0,
            cars = [Car_init 0 (- 1) 1 (3/10), Car_init 1 (- 1) 1 (3/10)],
            avg_velocity_history = [], density_history = [], flow_history = [],
            incident = None\<rparr>, []) \<and>
   Road_init script_rng 10 2 5 (3/2) [] =
     Inr (\<lparr>length_r = 10, n_cars = 2, time = 0,
            cars = [Car_init 0 5 1 (3/2), Car_init 1 5 1 (3/2)],
            avg_velocity_history = [], density_history = [], flow_history = [],
            incident = None\<rparr>, []) \<and>
   Road_init script_rng 0 0 5 (3/10) [] =
     Inr (\<lparr>length_r = 0, n_cars = 0, time = 0, cars = [],
            avg_velocity_history = [], density_history = [], flow_history = [],
            incident = None\<rparr>, [])"
  by (simp add: Road_init_def np_random_choice_def script_rng_def upt_conv_Cons)

section \<open>Properties of the experiment driver\<close>

text \<open>
  C10. A single run with a given configuration and a given seed does not depend on the
  state in which it finds the process-wide generator: two such runs return the same road
  (per-vehicle and system histories included) and leave the same generator state.
\<close>

theorem run_simulation_deterministic:
  "run_simulation rng n_steps road_length n vmax bp (Some s) g1 =
   run_simulation rng n_steps road_length n vmax bp (Some s) g2"
  by (simp add: run_simulation_def)

subsection \<open>Rounding to a double\<close>

lemma two_power_pos: "0 < two_power e"
  by (simp add: two_power_def)

lemma two_power_add: "two_power (a + b) = two_power a * two_power b"
proof -
  have "two_power e = 2 powr real_of_int e" for e
    by (simp add: two_power_def powr_realpow [symmetric] powr_minus divide_inverse)
  then show ?thesis by (simp add: powr_add)
qed

text \<open>
  The exponent is the binary exponent of \<open>x\<close>, and the mantissa is rounded to a nearest
  integer.
\<close>

lemma double_exponent_bounds:
  assumes "x \<noteq> 0"
  shows "two_power (double_exponent x) \<le> \<bar>x\<bar> \<and> \<bar>x\<bar> < two_power (double_exponent x + 1)"
proof (cases "1 \<le> \<bar>x\<bar>")
  case True
  define n where "n = \<lfloor>\<bar>x\<bar>\<rfloor>"
  have n: "0 < n" "real_of_int n \<le> \<bar>x\<bar>" "\<bar>x\<bar> < real_of_int n + 1"
    using True by (auto simp: n_def) (linarith+)?
  from bitlen_bounds [OF n(1)]
  have b: "2 ^ nat (bitlen n - 1) \<le> n" "n + 1 \<le> 2 ^ nat (bitlen n)" by auto
  have b1: "1 \<le> bitlen n" using n(1) by (simp add: bitlen_alt_def)
  have r1: "(2::real) ^ nat (bitlen n - 1) \<le> real_of_int n"
    using b(1) by (metis of_int_le_iff of_int_numeral of_int_power)
  have r2: "real_of_int n + 1 \<le> (2::real) ^ nat (bitlen n)"
    using b(2) by (metis of_int_le_iff of_int_numeral of_int_power of_int_add of_int_1)
  have "(2::real) ^ nat (bitlen n - 1) \<le> \<bar>x\<bar>"
    using r1 n(2) by (rule order_trans)
  then have lo: "two_power (bitlen n - 1) \<le> \<bar>x\<bar>"
    using b1 by (simp add: two_power_def)
  have "\<bar>x\<bar> < (2::real) ^ nat (bitlen n)"
    using n(3) r2 by (rule less_le_trans)
  then have hi: "\<bar>x\<bar> < two_power (bitlen n)"
    using b1 by (simp add: two_power_def)
  show ?thesis
    using True lo hi by (simp add: double_exponent_def n_def)
next
  case False
  define y where "y = 1 / \<bar>x\<bar>"
  define m where "m = \<lceil>y\<rceil> - 1"
  have x: "0 < \<bar>x\<bar>" "\<bar>x\<bar> < 1" using assms False by auto
  have y: "1 < y" "0 < y" using x by (simp_all add: y_def)
  have xy: "\<bar>x\<bar> = 1 / y" by (simp add: y_def)
  have m: "0 < m" "real_of_int m < y" "y \<le> real_of_int m + 1"
    using y(1) by (auto simp: m_def) (linarith+)?
  from bitlen_bounds [OF m(1)]
  have b: "2 ^ nat (bitlen m - 1) \<le> m" "m + 1 \<le> 2 ^ nat (bitlen m)" by auto
  have b1: "1 \<le> bitlen m" using m(1) by (simp add: bitlen_alt_def)
  have r1: "(2::real) ^ nat (bitlen m - 1) \<le> real_of_int m"
    using b(1) by (metis of_int_le_iff of_int_numeral of_int_power)
  have r2: "real_of_int m + 1 \<le> (2::real) ^ nat (bitlen m)"
    using b(2) by (metis of_int_le_iff of_int_numeral of_int_power of_int_add of_int_1)
  have "y \<le> 2 ^ nat (bitlen m)" using m(3) r2 by (rule order_trans)
  then have "1 / 2 ^ nat (bitlen m) \<le> 1 / y"
    using y(2) by (simp add: frac_le)
  then have lo: "two_power (- bitlen m) \<le> \<bar>x\<bar>"
    using b1 by (simp add: two_power_def xy)
  have "2 ^ nat (bitlen m - 1) < y" using r1 m(2) by (rule le_less_trans)
  then have "1 / y < 1 / 2 ^ nat (bitlen m - 1)"
    by (simp add: frac_less2)
  moreover have "two_power (- bitlen m + 1) = 1 / 2 ^ nat (bitlen m - 1)"
    using b1 by (auto simp: two_power_def)
  ultimately have hi: "\<bar>x\<bar> < two_power (- bitlen m + 1)"
    by (simp add: xy)
  show ?thesis
    using False lo hi by (simp add: double_exponent_def m_def y_def)
qed

lemma round_half_even_nearest: "\<bar>q - real_of_int (round_half_even q)\<bar> \<le> 1/2"
  by (auto simp: round_half_even_def Let_def) (linarith+)?

text \<open>
  The vehicle counts of the densities 0.03, 0.15 and 0.18 of \<open>main.py\<close> (given as the
  doubles that these literals denote) on 1000 cells: the double product rounds to 30, 150
  and 180, where the exact product of the first lies below 30.
\<close>

lemmas double_eval =
  scan_n_cars_def double_round_def double_exponent_def round_half_even_def two_power_def
  py_int_def compute_bitlen Let_def

lemma scan_n_cars_main:
  "scan_n_cars (1080863910568919 / 2 ^ 55) 1000 = Inr 30"
  "scan_n_cars (5404319552844595 / 2 ^ 55) 1000 = Inr 150"
  "scan_n_cars (3242591731706757 / 2 ^ 54) 1000 = Inr 180"
  "\<lfloor>(1080863910568919 / 2 ^ 55 :: real) * 1000\<rfloor> = 29"
  by (simp_all add: double_eval)

text \<open>
  The double nearest to 4/3 on 3 cells: the product rounds to 4, the count exceeds the
  cells and the scan ends with the sampling's \<open>ValueError\<close>.
\<close>

lemma scan_too_many_cars:
  "scan_n_cars (6004799503160661 / 2 ^ 52) 3 = Inr 4"
  "experiment_density_scan script_rng [6004799503160661 / 2 ^ 52] 1 3 1 0 [] = Inl ValueError"
proof -
  show n: "scan_n_cars (6004799503160661 / 2 ^ 52) 3 = Inr 4"
    by (simp add: double_eval)
  show "experiment_density_scan script_rng [6004799503160661 / 2 ^ 52] 1 3 1 0 [] = Inl ValueError"
    using n
    by (simp add: experiment_density_scan_def run_simulation_def np_random_seed_def
        Road_init_def np_random_choice_def)
qed

subsection \<open>The density scan\<close>

lemma mean_real_nonneg:
  assumes "\<forall>x\<in>set xs. 0 \<le> x"
  shows "nonneg_or_nan (mean_real xs)"
  using assms by (simp add: mean_real_def sum_list_nonneg)

lemma nonneg_fmul:
  assumes "nonneg_or_nan a" and "nonneg_or_nan b"
  shows "nonneg_or_nan (fmul a b)"
  using assms by (cases a; cases b) simp_all

lemma fin_values_set:
  "fin_values xs = Some ys \<Longrightarrow> set ys = {y. Fin y \<in> set xs}"
proof (induction xs arbitrary: ys rule: fin_values.induct)
  case 1
  then show ?case by simp
next
  case (2 xs)
  then show ?case by simp
next
  case (3 x xs)
  then show ?case by auto
qed

lemma np_mean_nonneg:
  assumes "\<forall>x\<in>set xs. nonneg_or_nan x"
  shows "nonneg_or_nan (np_mean xs)"
proof (cases "fin_values xs")
  case None
  then show ?thesis by (simp add: np_mean_def)
next
  case (Some ys)
  have "\<forall>y\<in>set ys. 0 \<le> y"
    using fin_values_set [OF Some] assms by fastforce
  then show ?thesis
    using Some by (simp add: np_mean_def mean_real_nonneg)
qed

lemma np_std_nonneg: "nonneg_or_nan (np_std xs)"
  by (auto simp: np_std_def Let_def split: option.splits
      intro!: divide_nonneg_nonneg sum_list_nonneg)

lemma set_py_slice_from: "set (py_slice_from b xs) \<subseteq> set xs"
  by (auto simp: py_slice_from_def dest: in_set_dropD)

lemma step_road_ok:
  fixes rng :: "'g np_random" and g :: 'g
  assumes "road_ok r"
  shows "\<exists>r' g'. step rng r g = Inr (r', g') \<and> road_ok r'"
proof -
  define cs where "cs = sort_key position (cars (apply_accident_effects r))"
  define cs' where "cs' = moved rng cs (length_r r) g"
  have len: "length_r r \<noteq> 0" "0 < length_r r" "0 \<le> n_cars r"
    using assms by (simp_all add: road_ok_def)
  have carp: "0 \<le> velocity c + acceleration c \<and> 0 \<le> acceleration c \<and> 0 \<le> v_max c"
    if "c \<in> set cs" for c
  proof -
    from that have "c \<in> set (cars (apply_accident_effects r))"
      by (simp add: cs_def)
    from in_cars_apply_accident_effects [OF this] assms show ?thesis
      unfolding road_ok_def by fastforce
  qed
  have cars': "0 \<le> velocity c \<and> 0 \<le> acceleration c \<and> 0 \<le> v_max c" if "c \<in> set cs'" for c
  proof -
    from that obtain i where i: "i < length cs"
      and c: "c = updated (cs ! i) (gap cs (length_r r) i) (length_r r) (draws rng g (length cs) ! i)"
      by (auto simp: cs'_def moved_def)
    have "cs ! i \<in> set cs" using i by simp
    from carp [OF this] show ?thesis
      by (simp add: c updated_def phase_velocity_nonneg)
  qed
  have avg: "nonneg_or_nan (np_mean_int (map velocity cs'))"
    unfolding np_mean_int_def using cars' by (intro mean_real_nonneg) auto
  have dens: "nonneg_or_nan (Fin (real_of_int (n_cars r) / real_of_int (length_r r)))"
    using len by simp
  show ?thesis
    using assms avg cars' nonneg_fmul [OF dens avg] len
    unfolding step_eq [OF len(1)] cs_def [symmetric] cs'_def [symmetric]
    by (simp add: road_ok_def)
qed

lemma run_steps_road_ok:
  assumes "road_ok r"
  shows "\<exists>r' g'. run_steps rng k r g = Inr (r', g') \<and> road_ok r'"
  using assms
proof (induction k arbitrary: r g)
  case 0
  then show ?case by simp
next
  case (Suc k)
  from step_road_ok [OF Suc.prems, of rng g]
  obtain r1 g1 where "step rng r g = Inr (r1, g1)" "road_ok r1" by blast
  with Suc.IH [OF this(2), of g1] show ?case by simp
qed

lemma run_simulation_road_ok:
  assumes "0 < road_length" and "0 \<le> n" and "n \<le> road_length"
    and "\<forall>s. seed = Some s \<longrightarrow> 0 \<le> s \<and> s < 2 ^ 32"
  shows "\<exists>r g'. run_simulation rng n_steps road_length n 5 (3/10) seed g = Inr (r, g') \<and>
           road_ok r"
proof -
  define g0 where "g0 = (case seed of None \<Rightarrow> g | Some s \<Rightarrow> np_seed rng s)"
  obtain sample g1 where ch: "np_choice rng g0 road_length n = (sample, g1)"
    by (cases "np_choice rng g0 road_length n")
  define r where "r = \<lparr>length_r = road_length, n_cars = n, time = 0,
                 cars = map (\<lambda>pos. Car_init pos 5 1 (3/10)) (sort sample),
                 avg_velocity_history = [], density_history = [], flow_history = [],
                 incident = None\<rparr>"
  have ri: "Road_init rng road_length n 5 (3/10) g0 = Inr (r, g1)"
    using assms by (simp add: Road_init_def np_random_choice_def ch r_def)
  have ok: "road_ok r"
    using assms by (auto simp: road_ok_def r_def Car_init_def)
  have sd: "(case seed of None \<Rightarrow> Inr g | Some s \<Rightarrow> np_random_seed rng s) = Inr g0"
    using assms(4) by (cases seed) (simp_all add: g0_def np_random_seed_def)
  from run_steps_road_ok [OF ok, of rng "nat n_steps" g1] ri show ?thesis
    by (auto simp: run_simulation_def sd)
qed

lemma run_simulation_seeded:
  "run_simulation rng n_steps road_length n vmax bp (Some s) g =
   run_simulation rng n_steps road_length n vmax bp (Some s) g0"
  by (simp add: run_simulation_def)

lemma scan_runs_eq:
  fixes rng :: "'g np_random" and g0 :: 'g and n_steps :: int
  assumes "0 < road_length" and "0 \<le> n" and "n \<le> road_length"
    and "\<forall>run\<in>set runs. int run < 2 ^ 32"
  defines "R \<equiv> \<lambda>run. fst (projr (run_simulation rng n_steps road_length n 5 (3/10)
                                    (Some (int run)) g0))"
  shows "\<exists>g'. scan_runs rng n_steps road_length n burn_in runs g vs fs =
           Inr (vs @ map (\<lambda>run. np_mean (py_slice_from burn_in (avg_velocity_history (R run)))) runs,
                fs @ map (\<lambda>run. np_mean (py_slice_from burn_in (flow_history (R run)))) runs,
                g')"
  using assms(4)
proof (induction runs arbitrary: g vs fs)
  case Nil
  then show ?case by simp
next
  case (Cons run runs)
  have sd: "\<forall>s. Some (int run) = Some s \<longrightarrow> 0 \<le> s \<and> s < 2 ^ 32"
    using Cons.prems by simp
  have rest: "\<forall>run\<in>set runs. int run < 2 ^ 32"
    using Cons.prems by simp
  from run_simulation_road_ok [OF assms(1-3) sd, where rng = rng and n_steps = n_steps
      and g = g0]
  obtain r g1 where "run_simulation rng n_steps road_length n 5 (3/10) (Some (int run)) g0 =
      Inr (r, g1)" by blast
  then have rs: "run_simulation rng n_steps road_length n 5 (3/10) (Some (int run)) g =
      Inr (R run, g1)"
    by (simp add: R_def run_simulation_seeded [where g = g and ?g0.0 = g0])
  from Cons.IH [OF rest, of g1 "vs @ [np_mean (py_slice_from burn_in (avg_velocity_history (R run)))]"
      "fs @ [np_mean (py_slice_from burn_in (flow_history (R run)))]"]
  show ?case
    by (simp add: rs Let_def)
qed

lemma scan_densities_eq:
  fixes rng :: "'g np_random" and g0 :: 'g and n_steps n_runs burn_in :: int
  assumes "0 < road_length"
    and "\<forall>d\<in>set ds. \<exists>n. scan_n_cars d road_length = Inr n \<and> 0 \<le> n \<and> n \<le> road_length"
    and "n_runs \<le> 2 ^ 32"
  defines "A \<equiv> \<lambda>d. aggregate_of burn_in
     (map (\<lambda>run. fst (projr (run_simulation rng n_steps road_length
                               (projr (scan_n_cars d road_length)) 5 (3/10)
                               (Some (int run)) g0))) [0..<nat n_runs])"
  shows "\<exists>res g'. scan_densities rng ds n_steps road_length n_runs burn_in results g =
           Inr (res, g') \<and> (\<forall>d. res d = (if d \<in> set ds then Some (A d) else results d))"
  using assms(2)
proof (induction ds arbitrary: results g)
  case Nil
  then show ?case by simp
next
  case (Cons d ds)
  from Cons.prems obtain n where nc: "scan_n_cars d road_length = Inr n"
    and n: "0 \<le> n" "n \<le> road_length"
    by auto
  have runs: "\<forall>run\<in>set [0..<nat n_runs]. int run < 2 ^ 32"
    using assms(3) by auto
  from scan_runs_eq [OF assms(1) n runs, where rng = rng and n_steps = n_steps and ?g0.0 = g0
      and burn_in = burn_in and g = g and vs = "[]" and fs = "[]"]
  obtain g1 where sr: "scan_runs rng n_steps road_length n burn_in [0..<nat n_runs] g [] [] =
     Inr (map (\<lambda>run. np_mean (py_slice_from burn_in (avg_velocity_history
                 (fst (projr (run_simulation rng n_steps road_length n 5 (3/10)
                                (Some (int run)) g0)))))) [0..<nat n_runs],
          map (\<lambda>run. np_mean (py_slice_from burn_in (flow_history
                 (fst (projr (run_simulation rng n_steps road_length n 5 (3/10)
                                (Some (int run)) g0)))))) [0..<nat n_runs], g1)"
    by auto
  have a: "\<lparr>avg_velocity = np_mean (map (\<lambda>run. np_mean (py_slice_from burn_in (avg_velocity_history
                 (fst (projr (run_simulation rng n_steps road_length n 5 (3/10)
                                (Some (int run)) g0)))))) [0..<nat n_runs]),
            std_velocity = np_std (map (\<lambda>run. np_mean (py_slice_from burn_in (avg_velocity_history
                 (fst (projr (run_simulation rng n_steps road_length n 5 (3/10)
                                (Some (int run)) g0)))))) [0..<nat n_runs]),
            avg_flow = np_mean (map (\<lambda>run. np_mean (py_slice_from burn_in (flow_history
                 (fst (projr (run_simulation rng n_steps road_length n 5 (3/10)
                                (Some (int run)) g0)))))) [0..<nat n_runs]),
            std_flow = np_std (map (\<lambda>run. np_mean (py_slice_from burn_in (flow_history
                 (fst (projr (run_simulation rng n_steps road_length n 5 (3/10)
                                (Some (int run)) g0)))))) [0..<nat n_runs])\<rparr> = A d"
    by (simp add: A_def aggregate_of_def Let_def comp_def nc)
  have "\<forall>d\<in>set ds. \<exists>n. scan_n_cars d road_length = Inr n \<and> 0 \<le> n \<and> n \<le> road_length"
    using Cons.prems by simp
  from Cons.IH [OF this, of "results(d \<mapsto> A d)" g1]
  obtain res g' where r: "scan_densities rng ds n_steps road_length n_runs burn_in
       (results(d \<mapsto> A d)) g1 = Inr (res, g')"
    and v: "\<forall>da. res da = (if da \<in> set ds then Some (A da) else (results(d \<mapsto> A d)) da)"
    by blast
  have "scan_densities rng (d # ds) n_steps road_length n_runs burn_in results g = Inr (res, g')"
    by (simp add: nc sr a r del: fun_upd_apply)
  moreover have "\<forall>da. res da = (if da \<in> set (d # ds) then Some (A da) else results da)"
    using v by auto
  ultimately show ?case by blast
qed

lemma aggregate_of_nonneg:
  assumes "\<forall>r\<in>set roads. road_ok r"
  shows "nonneg_or_nan (avg_velocity (aggregate_of burn_in roads)) \<and>
         nonneg_or_nan (std_velocity (aggregate_of burn_in roads)) \<and>
         nonneg_or_nan (avg_flow (aggregate_of burn_in roads)) \<and>
         nonneg_or_nan (std_flow (aggregate_of burn_in roads))"
proof -
  have v: "nonneg_or_nan (np_mean (py_slice_from burn_in (avg_velocity_history r)))"
    and f: "nonneg_or_nan (np_mean (py_slice_from burn_in (flow_history r)))"
    if "r \<in> set roads" for r
  proof -
    have ok: "road_ok r" using assms that by simp
    have "\<forall>x\<in>set (py_slice_from burn_in (avg_velocity_history r)). nonneg_or_nan x"
      using ok set_py_slice_from [of burn_in "avg_velocity_history r"]
      unfolding road_ok_def by blast
    then show "nonneg_or_nan (np_mean (py_slice_from burn_in (avg_velocity_history r)))"
      by (rule np_mean_nonneg)
    have "\<forall>x\<in>set (py_slice_from burn_in (flow_history r)). nonneg_or_nan x"
      using ok set_py_slice_from [of burn_in "flow_history r"]
      unfolding road_ok_def by blast
    then show "nonneg_or_nan (np_mean (py_slice_from burn_in (flow_history r)))"
      by (rule np_mean_nonneg)
  qed
  have "nonneg_or_nan (np_mean (map (\<lambda>r. np_mean (py_slice_from burn_in
            (avg_velocity_history r))) roads))"
    by (rule np_mean_nonneg) (use v in auto)
  moreover have "nonneg_or_nan (np_mean (map (\<lambda>r. np_mean (py_slice_from burn_in
            (flow_history r))) roads))"
    by (rule np_mean_nonneg) (use f in auto)
  ultimately show ?thesis
    by (simp add: aggregate_of_def Let_def np_std_nonneg)
qed

text \<open>
  C9, as the code has it. For a positive road length, at most \<open>2\<^sup>3\<^sup>2\<close> replicates
  (the seeds that numpy accepts) and densities whose vehicle count
  \<open>int(density * road_length)\<close> (the double product, truncated toward zero) lies between
  0 and the road length, the scan returns a dictionary whose keys are exactly the
  requested densities (so one entry per distinct density, and K entries when the K
  densities are pairwise distinct); the entry of a density is the aggregate (mean and
  standard deviation of the per-replicate means after the burn-in, for velocity and for
  flow) of the roads of the \<open>n_runs\<close> runs seeded with the replicate index and built
  with that vehicle count; each of its four values is non-negative or NaN.
\<close>

theorem density_scan_aggregates:
  fixes rng :: "'g np_random" and g :: 'g
  assumes "0 < road_length"
    and "\<forall>d\<in>set densities. \<exists>n. scan_n_cars d road_length = Inr n \<and> 0 \<le> n \<and> n \<le> road_length"
    and "n_runs \<le> 2 ^ 32"
  shows "\<exists>results g'.
           experiment_density_scan rng densities n_steps road_length n_runs burn_in g =
             Inr (results, g') \<and>
           dom results = set densities \<and>
           (distinct densities \<longrightarrow> card (dom results) = length densities) \<and>
           (\<forall>d\<in>set densities. \<exists>n roads a.
               scan_n_cars d road_length = Inr n \<and>
               length roads = nat n_runs \<and>
               (\<forall>i<nat n_runs. \<exists>gi.
                   run_simulation rng n_steps road_length n 5 (3/10) (Some (int i)) g =
                   Inr (roads ! i, gi)) \<and>
               results d = Some a \<and> a = aggregate_of burn_in roads \<and>
               nonneg_or_nan (avg_velocity a) \<and> nonneg_or_nan (std_velocity a) \<and>
               nonneg_or_nan (avg_flow a) \<and> nonneg_or_nan (std_flow a))"
proof -
  define R where "R = (\<lambda>d run. fst (projr (run_simulation rng n_steps road_length
                               (projr (scan_n_cars d road_length)) 5 (3/10)
                               (Some (int run)) g)))"
  from scan_densities_eq [OF assms, where rng = rng and n_steps = n_steps
      and burn_in = burn_in and results = Map.empty and g = g and ?g0.0 = g]
  obtain res g' where s: "experiment_density_scan rng densities n_steps road_length n_runs
      burn_in g = Inr (res, g')"
    and v: "\<And>d. res d = (if d \<in> set densities
                          then Some (aggregate_of burn_in (map (R d) [0..<nat n_runs]))
                          else None)"
    unfolding experiment_density_scan_def R_def by auto
  have dom: "dom res = set densities"
    using v by (auto simp: dom_def)
  have per: "\<exists>n roads a.
               scan_n_cars d road_length = Inr n \<and>
               length roads = nat n_runs \<and>
               (\<forall>i<nat n_runs. \<exists>gi.
                   run_simulation rng n_steps road_length n 5 (3/10) (Some (int i)) g =
                   Inr (roads ! i, gi)) \<and>
               res d = Some a \<and> a = aggregate_of burn_in roads \<and>
               nonneg_or_nan (avg_velocity a) \<and> nonneg_or_nan (std_velocity a) \<and>
               nonneg_or_nan (avg_flow a) \<and> nonneg_or_nan (std_flow a)"
    if d: "d \<in> set densities" for d
  proof -
    from assms(2) d obtain n where nc: "scan_n_cars d road_length = Inr n"
      and n: "0 \<le> n" "n \<le> road_length"
      by auto
    let ?roads = "map (R d) [0..<nat n_runs]"
    have run: "\<exists>gi. run_simulation rng n_steps road_length n 5 (3/10) (Some (int i)) g =
                 Inr (R d i, gi) \<and> road_ok (R d i)"
      if "i < nat n_runs" for i
    proof -
      have "\<forall>s. Some (int i) = Some s \<longrightarrow> 0 \<le> s \<and> s < 2 ^ 32"
        using that assms(3) by auto
      from run_simulation_road_ok [OF assms(1) n this, where rng = rng and n_steps = n_steps
          and g = g]
      show ?thesis by (auto simp: R_def nc)
    qed
    have ok: "\<forall>r\<in>set ?roads. road_ok r"
      using run by auto
    have "\<forall>i<nat n_runs. \<exists>gi.
                   run_simulation rng n_steps road_length n 5 (3/10) (Some (int i)) g =
                   Inr (?roads ! i, gi)"
      using run by auto
    with aggregate_of_nonneg [OF ok, of burn_in] v [of d] d nc show ?thesis
      by (intro exI [of _ n] exI [of _ ?roads] exI [of _ "aggregate_of burn_in ?roads"]) simp
  qed
  have "distinct densities \<longrightarrow> card (dom res) = length densities"
    by (simp add: dom distinct_card)
  with s dom per show ?thesis by blast
qed

theorem density_scan_aggregates_witness:
  "\<exists>results g'. experiment_density_scan script_rng [1/2, 1/4] 2 4 1 0 [] = Inr (results, g') \<and>
      dom results = {1/2, 1/4} \<and> card (dom results) = 2"
proof -
  have "scan_n_cars (1/2) 4 = Inr 2" "scan_n_cars (1/4) 4 = Inr 1"
    by (simp_all add: double_eval)
  then show ?thesis
    using density_scan_aggregates [where rng = script_rng and g = "[]" and road_length = 4
      and densities = "[1/2, 1/4]" and n_steps = 2 and n_runs = 1 and burn_in = 0]
    by auto
qed

lemmas scan_eval =
  experiment_density_scan_def run_simulation_def np_random_seed_def Road_init_def
  np_random_choice_def
  script_rng_def step_def apply_accident_effects_def distances_def record_metrics_def
  np_mean_int_def mean_real_def Let_def upt_conv_Cons py_slice_from_def
  np_mean_def np_std_def update_def accelerate_def avoid_collision_def random_brake_def
  move_def record_state_def Car_init_def

text \<open>
  C9 as stated fails. For density 0.5 on 3 cells the vehicle count is \<open>int(1.5) = 1\<close>,
  not \<open>round(1.5) = 2\<close>; the two requested densities \<open>[0.5, 0.5]\<close> give one entry; and
  with a burn-in of the length of the run the four values are NaN.
\<close>

theorem density_scan_counterexample:
  "scan_n_cars (1/2) 3 = Inr 1 \<and> round (1/2 * real_of_int 3) = 2 \<and>
   experiment_density_scan script_rng [1/2, 1/2] 1 3 1 1 [] =
     Inr ([1/2 \<mapsto> \<lparr>avg_velocity = NaN, std_velocity = NaN, avg_flow = NaN, std_flow = NaN\<rparr>],
          [1/10, 1/5, 3/10, 2/5, 1/2, 3/5, 7/10])"
proof -
  have n: "scan_n_cars (1/2) 3 = Inr 1"
    by (simp add: double_eval)
  show ?thesis
    by (simp add: n scan_eval round_def)
qed

end
